theory Spec2Isabelle
  imports Main
begin

section \<open>Batch pull requests: the package mkpr\<close>

text \<open>
  The package turns one description of a change into a pull request in each destination
  repository. Per destination it resolves or creates the commit branch, builds a tree of
  blobs from local files, commits it, moves the branch and opens the pull request. All of
  that is done through a hosting API client, the local file system and the clock. The
  model makes those collaborators explicit: every request that leaves the program is
  appended to a log, and the environment answers each request from the log so far.
\<close>

subsection \<open>Errors\<close>

text \<open>
  Go errors as values. \<open>ErrorString\<close> is what \<open>errors.New\<close> builds (and \<open>fmt.Errorf\<close>
  with no \<open>%w\<close> verb), \<open>WrapError p e\<close> is \<open>fmt.Errorf(p + "%w", e)\<close>, and
  \<open>PathError op path e\<close> is the error of the standard library's file operations.
\<close>

datatype error =
    ErrorString string
  | WrapError string error
  | PathError string string error

fun Error :: "error \<Rightarrow> string" where
  "Error (ErrorString m) = m"
| "Error (WrapError p e) = p @ Error e"
| "Error (PathError op path e) = op @ '' '' @ path @ '': '' @ Error e"

fun Unwrap :: "error \<Rightarrow> error option" where
  "Unwrap (ErrorString m) = None"
| "Unwrap (WrapError p e) = Some e"
| "Unwrap (PathError op path e) = Some e"

subsection \<open>The batch description\<close>

record Destination =
  Repository :: string
  Base :: string

record BatchPullRequestOption =
  CommitMessage :: string
  Subject :: string
  Body :: string
  Destinations :: "Destination list"
  Files :: "string list"
  authorName :: string
  authorEmail :: string
  Head :: string

text \<open>The loop of \<open>validate\<close> over the destinations: the first offending one decides.\<close>

fun validate_loop :: "string \<Rightarrow> Destination list \<Rightarrow> error option" where
  "validate_loop head [] = None"
| "validate_loop head (v # vs) =
     (if Base v = '''' then
        Some (ErrorString (''head branc of destination repository '' @ Repository v @ '' is empty''))
      else if head = Base v then
        Some (ErrorString (''base branch cannot be the same as head at repository '' @ Repository v))
      else validate_loop head vs)"

definition validate :: "BatchPullRequestOption \<Rightarrow> error option" where
  "validate b =
     (if Head b = '''' then Some (ErrorString ''base branch cannot be empty'')
      else validate_loop (Head b) (Destinations b))"

record BatchPullRequestCommand =
  options :: BatchPullRequestOption

text \<open>
  The constructor returns Go's pair of a command pointer and an error. The HTTP client it
  also takes is the environment of the model and is given to \<open>Do\<close> directly.
\<close>

definition NewBatchPullRequestCommand ::
  "BatchPullRequestOption \<Rightarrow> BatchPullRequestCommand option \<times> error option" where
  "NewBatchPullRequestCommand opts =
     (case validate opts of
        Some err \<Rightarrow> (None, Some err)
      | None \<Rightarrow> (Some \<lparr>options = opts\<rparr>, None))"

subsection \<open>The objects of the hosting API\<close>

text \<open>
  The client library's types, with the fields the program reads or writes and the
  identifying fields beside them. A pointer field is an \<open>option\<close>: \<open>None\<close> is \<open>nil\<close>.
  The time stamp of a commit author is a number read from the clock.
\<close>

record GitObject =
  GitObject_Type :: "string option"
  GitObject_SHA :: "string option"
  GitObject_URL :: "string option"

record Reference =
  Reference_Ref :: "string option"
  Reference_URL :: "string option"
  Reference_Object :: "GitObject option"
  Reference_NodeID :: "string option"

record TreeEntry =
  TreeEntry_SHA :: "string option"
  TreeEntry_Path :: "string option"
  TreeEntry_Mode :: "string option"
  TreeEntry_Type :: "string option"
  TreeEntry_Size :: "int option"
  TreeEntry_Content :: "string option"
  TreeEntry_URL :: "string option"

record Tree =
  Tree_SHA :: "string option"
  Tree_Entries :: "TreeEntry list"

record CommitAuthor =
  CommitAuthor_Date :: "nat option"
  CommitAuthor_Name :: "string option"
  CommitAuthor_Email :: "string option"

datatype Commit =
  Commit (Commit_SHA: "string option") (Commit_Author: "CommitAuthor option")
    (Commit_Committer: "CommitAuthor option") (Commit_Message: "string option")
    (Commit_Tree: "Tree option") (Commit_Parents: "Commit list")

record RepositoryCommit =
  RepositoryCommit_SHA :: "string option"
  RepositoryCommit_Commit :: "Commit option"

record User =
  User_Name :: "string option"
  User_Email :: "string option"

record NewPullRequest =
  NewPullRequest_Title :: "string option"
  NewPullRequest_Head :: "string option"
  NewPullRequest_Base :: "string option"
  NewPullRequest_Body :: "string option"
  NewPullRequest_Issue :: "int option"
  NewPullRequest_MaintainerCanModify :: "bool option"

record PullRequest =
  PullRequest_HTMLURL :: "string option"

text \<open>The library's getters accept a nil receiver and a nil field, and give the zero value.\<close>

definition GetName :: "User option \<Rightarrow> string" where
  "GetName u =
     (case u of None \<Rightarrow> '''' | Some u' \<Rightarrow> (case User_Name u' of None \<Rightarrow> '''' | Some n \<Rightarrow> n))"

definition GetEmail :: "User option \<Rightarrow> string" where
  "GetEmail u =
     (case u of None \<Rightarrow> '''' | Some u' \<Rightarrow> (case User_Email u' of None \<Rightarrow> '''' | Some n \<Rightarrow> n))"

definition GetHTMLURL :: "PullRequest option \<Rightarrow> string" where
  "GetHTMLURL p =
     (case p of None \<Rightarrow> ''''
      | Some p' \<Rightarrow> (case PullRequest_HTMLURL p' of None \<Rightarrow> '''' | Some n \<Rightarrow> n))"

subsection \<open>Requests, the log and the environment\<close>

text \<open>
  One constructor per operation the program performs outside itself, with the arguments
  it passes: the eight operations of the hosting API, reading a local file and reading
  the clock. The first two strings of a repository operation are owner and repository.
\<close>

datatype call =
    UsersGet string
  | GitGetRef string string string
  | GitCreateRef string string Reference
  | GitCreateTree string string string "TreeEntry list"
  | RepositoriesGetCommit string string string
  | GitCreateCommit string string Commit
  | GitUpdateRef string string Reference bool
  | PullRequestsCreate string string NewPullRequest
  | ReadFile string
  | TimeNow

text \<open>
  The environment answers a request from the whole log up to and including that request,
  so an answer may depend on everything the program did before and on how many requests
  were made (a branch that another actor moves in between is such an environment). An API
  answer is an error or a possibly nil object; a file answer is the content, or the
  failed operation and the system's error.
\<close>

record env =
  user_reply :: "call list \<Rightarrow> error + User option"
  reference_reply :: "call list \<Rightarrow> error + Reference option"
  tree_reply :: "call list \<Rightarrow> error + Tree option"
  repository_commit_reply :: "call list \<Rightarrow> error + RepositoryCommit option"
  commit_reply :: "call list \<Rightarrow> error + Commit option"
  pull_request_reply :: "call list \<Rightarrow> error + PullRequest option"
  file_reply :: "call list \<Rightarrow> (string \<times> error) + string"
  clock :: "call list \<Rightarrow> nat"

text \<open>
  A computation takes the log and gives the log it leaves, with either the values the Go
  function returns or the fact that it panicked (a nil pointer dereference).
\<close>

datatype 'a outcome = Panicked | Returned 'a

type_synonym ('a, 's) prog = "'s \<Rightarrow> 'a outcome \<times> 's"

type_synonym 'a io = "('a, call list) prog"

definition io_return :: "'a \<Rightarrow> ('a, 's) prog" where
  "io_return x s = (Returned x, s)"

definition io_panic :: "('a, 's) prog" where
  "io_panic s = (Panicked, s)"

definition io_bind :: "('a, 's) prog \<Rightarrow> ('a \<Rightarrow> ('b, 's) prog) \<Rightarrow> ('b, 's) prog" where
  "io_bind m f s = (case m s of (Panicked, s') \<Rightarrow> (Panicked, s') | (Returned x, s') \<Rightarrow> f x s')"

definition deref :: "'a option \<Rightarrow> ('a, 's) prog" where
  "deref p = (case p of None \<Rightarrow> io_panic | Some x \<Rightarrow> io_return x)"

definition request :: "call \<Rightarrow> (call list \<Rightarrow> 'a) \<Rightarrow> 'a io" where
  "request c reply s = (Returned (reply (s @ [c])), s @ [c])"

text \<open>
  The library returns \<open>(nil, err)\<close> on an error and \<open>(object, nil)\<close> otherwise. Two of
  its methods read through a pointer of their argument before they send anything:
  \<open>CreateCommit\<close> reads the hash of every parent, and \<open>UpdateRef\<close> reads the name of the
  reference. A nil pointer there is a panic with no request made.
\<close>

definition go_result :: "error + 'a option \<Rightarrow> 'a option \<times> error option" where
  "go_result r = (case r of Inl e \<Rightarrow> (None, Some e) | Inr x \<Rightarrow> (x, None))"

definition Users_Get :: "env \<Rightarrow> string \<Rightarrow> (User option \<times> error option) io" where
  "Users_Get env user = request (UsersGet user) (\<lambda>log. go_result (user_reply env log))"

definition Git_GetRef ::
  "env \<Rightarrow> string \<Rightarrow> string \<Rightarrow> string \<Rightarrow> (Reference option \<times> error option) io" where
  "Git_GetRef env owner repo ref =
     request (GitGetRef owner repo ref) (\<lambda>log. go_result (reference_reply env log))"

definition Git_CreateRef ::
  "env \<Rightarrow> string \<Rightarrow> string \<Rightarrow> Reference \<Rightarrow> (Reference option \<times> error option) io" where
  "Git_CreateRef env owner repo ref =
     request (GitCreateRef owner repo ref) (\<lambda>log. go_result (reference_reply env log))"

definition Git_UpdateRef ::
  "env \<Rightarrow> string \<Rightarrow> string \<Rightarrow> Reference \<Rightarrow> bool \<Rightarrow> (Reference option \<times> error option) io" where
  "Git_UpdateRef env owner repo ref force =
     io_bind (deref (Reference_Ref ref)) (\<lambda>name.
       request (GitUpdateRef owner repo ref force) (\<lambda>log. go_result (reference_reply env log)))"

definition Git_CreateTree ::
  "env \<Rightarrow> string \<Rightarrow> string \<Rightarrow> string \<Rightarrow> TreeEntry list \<Rightarrow> (Tree option \<times> error option) io" where
  "Git_CreateTree env owner repo baseTree entries =
     request (GitCreateTree owner repo baseTree entries) (\<lambda>log. go_result (tree_reply env log))"

definition Repositories_GetCommit ::
  "env \<Rightarrow> string \<Rightarrow> string \<Rightarrow> string \<Rightarrow> (RepositoryCommit option \<times> error option) io" where
  "Repositories_GetCommit env owner repo sha =
     request (RepositoriesGetCommit owner repo sha)
       (\<lambda>log. go_result (repository_commit_reply env log))"

definition Git_CreateCommit ::
  "env \<Rightarrow> string \<Rightarrow> string \<Rightarrow> Commit \<Rightarrow> (Commit option \<times> error option) io" where
  "Git_CreateCommit env owner repo commit =
     io_bind (deref (those (map Commit_SHA (Commit_Parents commit)))) (\<lambda>parents.
       request (GitCreateCommit owner repo commit) (\<lambda>log. go_result (commit_reply env log)))"

definition PullRequests_Create ::
  "env \<Rightarrow> string \<Rightarrow> string \<Rightarrow> NewPullRequest \<Rightarrow> (PullRequest option \<times> error option) io" where
  "PullRequests_Create env owner repo pull =
     request (PullRequestsCreate owner repo pull) (\<lambda>log. go_result (pull_request_reply env log))"

text \<open>
  \<open>ioutil.ReadFile\<close>: the bytes of the file, or a path error that carries the name it
  was called with.
\<close>

definition ioutil_ReadFile :: "env \<Rightarrow> string \<Rightarrow> (string \<times> error option) io" where
  "ioutil_ReadFile env name =
     request (ReadFile name)
       (\<lambda>log. case file_reply env log of
                 Inl (op, e) \<Rightarrow> ([], Some (PathError op name e))
               | Inr b \<Rightarrow> (b, None))"

definition time_Now :: "env \<Rightarrow> nat io" where
  "time_Now env = request TimeNow (clock env)"

text \<open>
  \<open>strings.Split\<close> for a separator of one byte: the pieces between the separators, so
  one piece more than there are separators, and the one piece \<open>''''\<close> for the empty string.
\<close>

fun strings_Split :: "string \<Rightarrow> char \<Rightarrow> string list" where
  "strings_Split [] sep = [[]]"
| "strings_Split (c # cs) sep =
     (if c = sep then [] # strings_Split cs sep
      else (case strings_Split cs sep of [] \<Rightarrow> [[c]] | w # ws \<Rightarrow> (c # w) # ws))"

subsection \<open>One job\<close>

record pullRequestCreationOptions =
  SourceOwner :: string
  PullRequestOwner :: string
  SourceRepo :: string
  BaseBranch :: string
  CommitMessage :: string
  CommitBranch :: string
  PullRequestRepo :: string
  PullRequestBranch :: string
  PullRequestSubject :: string
  PullRequestBody :: string
  Files :: "string list"
  AuthorName :: string
  AuthorEmail :: string

text \<open>
  \<open>getRef\<close>: the commit branch's reference if the lookup gives no error; otherwise the
  base branch's reference is fetched and a reference of the commit branch's name at the
  base's object hash is created. The creation names its owner literally.
\<close>

definition getRef ::
  "env \<Rightarrow> pullRequestCreationOptions \<Rightarrow> (Reference option \<times> error option) io" where
  "getRef env opts =
     io_bind (Git_GetRef env (SourceOwner opts) (SourceRepo opts)
                (''refs/heads/'' @ CommitBranch opts))
       (\<lambda>(ref, err). case err of
          None \<Rightarrow> io_return (ref, None)
        | Some _ \<Rightarrow>
            io_bind (Git_GetRef env (SourceOwner opts) (SourceRepo opts)
                       (''refs/heads/'' @ BaseBranch opts))
              (\<lambda>(baseRef, err). case err of
                 Some e \<Rightarrow> io_return (None, Some (WrapError ''unable to get base ref: '' e))
               | None \<Rightarrow>
                   io_bind (deref baseRef) (\<lambda>base.
                   io_bind (deref (Reference_Object base)) (\<lambda>obj.
                     Git_CreateRef env ''mercadolibre'' (SourceRepo opts)
                       \<lparr>Reference_Ref = Some (''refs/heads/'' @ CommitBranch opts),
                        Reference_URL = None,
                        Reference_Object =
                          Some \<lparr>GitObject_Type = None, GitObject_SHA = GitObject_SHA obj,
                                GitObject_URL = None\<rparr>,
                        Reference_NodeID = None\<rparr>))))"

text \<open>
  \<open>getFileContent\<close> returns the target name, the bytes and the error of the read. The
  first piece of the argument is the local file; the target is the same piece when there
  is only one, and the second piece otherwise.
\<close>

definition getFileContent :: "env \<Rightarrow> string \<Rightarrow> (string \<times> string \<times> error option) io" where
  "getFileContent env fileArg =
     (let files = strings_Split fileArg CHR '':'' in
      if length files < 1 then io_return ('''', [], Some (ErrorString ''empty files''))
      else
        (let (localFile, targetName) =
               (if length files = 1 then (files ! 0, files ! 0) else (files ! 0, files ! 1))
         in io_bind (ioutil_ReadFile env localFile) (\<lambda>(b, err). io_return (targetName, b, err))))"

definition blob_entry :: "string \<Rightarrow> string \<Rightarrow> TreeEntry" where
  "blob_entry file content =
     \<lparr>TreeEntry_SHA = None, TreeEntry_Path = Some file, TreeEntry_Mode = Some ''100644'',
      TreeEntry_Type = Some ''blob'', TreeEntry_Size = None, TreeEntry_Content = Some content,
      TreeEntry_URL = None\<rparr>"

text \<open>The loop of \<open>getTree\<close> over the file arguments; the first failing read ends it.\<close>

fun getTree_loop :: "env \<Rightarrow> string list \<Rightarrow> TreeEntry list \<Rightarrow> (TreeEntry list \<times> error option) io" where
  "getTree_loop env [] entries = io_return (entries, None)"
| "getTree_loop env (fileArg # rest) entries =
     io_bind (getFileContent env fileArg)
       (\<lambda>(file, content, err). case err of
          Some e \<Rightarrow> io_return (entries, Some e)
        | None \<Rightarrow> getTree_loop env rest (entries @ [blob_entry file content]))"

definition getTree ::
  "env \<Rightarrow> pullRequestCreationOptions \<Rightarrow> Reference option \<Rightarrow> (Tree option \<times> error option) io" where
  "getTree env opts ref =
     io_bind (getTree_loop env (Files opts) [])
       (\<lambda>(entries, err). case err of
          Some e \<Rightarrow> io_return (None, Some e)
        | None \<Rightarrow>
            io_bind (deref ref) (\<lambda>r.
            io_bind (deref (Reference_Object r)) (\<lambda>obj.
            io_bind (deref (GitObject_SHA obj)) (\<lambda>sha.
              Git_CreateTree env (SourceOwner opts) (SourceRepo opts) sha entries))))"

text \<open>
  \<open>pushCommit\<close>: the parent commit is read at the reference's hash, the new commit is
  created on it with the tree, the author and the clock's time, and the reference, with
  its object hash replaced by the new commit's, is updated with \<open>force\<close> false.
\<close>

definition pushCommit ::
  "env \<Rightarrow> pullRequestCreationOptions \<Rightarrow> Reference option \<Rightarrow> Tree option \<Rightarrow> error option io" where
  "pushCommit env opts ref tree =
     io_bind (deref ref) (\<lambda>r.
     io_bind (deref (Reference_Object r)) (\<lambda>obj.
     io_bind (deref (GitObject_SHA obj)) (\<lambda>sha.
     io_bind (Repositories_GetCommit env (SourceOwner opts) (SourceRepo opts) sha)
       (\<lambda>(parent, err). case err of
          Some e \<Rightarrow> io_return (Some e)
        | None \<Rightarrow>
            io_bind (deref parent) (\<lambda>p.
            io_bind (deref (RepositoryCommit_Commit p)) (\<lambda>pc.
            io_bind (time_Now env) (\<lambda>date.
            io_bind (Git_CreateCommit env (SourceOwner opts) (SourceRepo opts)
                       (Commit None
                          (Some \<lparr>CommitAuthor_Date = Some date,
                                 CommitAuthor_Name = Some (AuthorName opts),
                                 CommitAuthor_Email = Some (AuthorEmail opts)\<rparr>)
                          None (Some (CommitMessage opts)) tree
                          [Commit (RepositoryCommit_SHA p) (Commit_Author pc) (Commit_Committer pc)
                             (Commit_Message pc) (Commit_Tree pc) (Commit_Parents pc)]))
              (\<lambda>(newCommit, err). case err of
                 Some e \<Rightarrow> io_return (Some (WrapError ''unable to commit: '' e))
               | None \<Rightarrow>
                   io_bind (deref newCommit) (\<lambda>nc.
                   io_bind (Git_UpdateRef env (SourceOwner opts) (SourceRepo opts)
                              (r\<lparr>Reference_Object := Some (obj\<lparr>GitObject_SHA := Commit_SHA nc\<rparr>)\<rparr>)
                              False)
                     (\<lambda>(updated, err). io_return err))))))))))"

definition createPR :: "env \<Rightarrow> pullRequestCreationOptions \<Rightarrow> (string \<times> error option) io" where
  "createPR env opts =
     io_bind (PullRequests_Create env (PullRequestOwner opts) (PullRequestRepo opts)
                \<lparr>NewPullRequest_Title = Some (PullRequestSubject opts),
                 NewPullRequest_Head = Some (CommitBranch opts),
                 NewPullRequest_Base = Some (PullRequestBranch opts),
                 NewPullRequest_Body = Some (PullRequestBody opts),
                 NewPullRequest_Issue = None,
                 NewPullRequest_MaintainerCanModify = Some True\<rparr>)
       (\<lambda>(pr, err). case err of
          Some e \<Rightarrow> io_return ('''', Some (WrapError ''unable to create PR: '' e))
        | None \<Rightarrow> io_return (GetHTMLURL pr, None))"

text \<open>The four steps of a job, \<open>pullRequestCommand.do\<close>.\<close>

definition do :: "env \<Rightarrow> pullRequestCreationOptions \<Rightarrow> (string \<times> error option) io" where
  "do env opts =
     io_bind (getRef env opts)
       (\<lambda>(ref, err). case err of
          Some e \<Rightarrow> io_return ('''', Some e)
        | None \<Rightarrow>
            (case ref of
               None \<Rightarrow>
                 io_return ('''', Some (ErrorString ''no error where returned but the reference is nil''))
             | Some _ \<Rightarrow>
                 io_bind (getTree env opts ref)
                   (\<lambda>(tree, err). case err of
                      Some e \<Rightarrow>
                        io_return ('''',
                          Some (WrapError ''unable to create the tree based on the provided files: '' e))
                    | None \<Rightarrow>
                        io_bind (pushCommit env opts ref tree)
                          (\<lambda>err. case err of
                             Some e \<Rightarrow>
                               io_return ('''', Some (WrapError ''unable to create the commit: '' e))
                           | None \<Rightarrow> createPR env opts))))"

subsection \<open>The batch\<close>

text \<open>The options \<open>Range\<close> builds for the destination \<open>v\<close>.\<close>

definition job_options :: "BatchPullRequestOption \<Rightarrow> Destination \<Rightarrow> pullRequestCreationOptions" where
  "job_options b v =
     \<lparr>SourceOwner = ''mercadolibre'',
      PullRequestOwner = ''mercadolibre'',
      SourceRepo = Repository v,
      BaseBranch = Base v,
      CommitMessage = BatchPullRequestOption.CommitMessage b,
      CommitBranch = Head b,
      PullRequestRepo = Repository v,
      PullRequestBranch = Base v,
      PullRequestSubject = Subject b,
      PullRequestBody = Body b,
      Files = BatchPullRequestOption.Files b,
      AuthorName = authorName b,
      AuthorEmail = authorEmail b\<rparr>"

text \<open>
  \<open>Range\<close> calls \<open>f\<close> on the options of each destination in turn and stops at the first
  error. The callback may have a state of its own besides the log. The method is named
  \<open>Range_Destinations\<close> here, since \<open>Range\<close> is the range of a relation in the library.
\<close>

fun Range_loop ::
  "BatchPullRequestOption \<Rightarrow> (pullRequestCreationOptions \<Rightarrow> (error option, 's) prog) \<Rightarrow>
   Destination list \<Rightarrow> (error option, 's) prog" where
  "Range_loop b f [] = io_return None"
| "Range_loop b f (v # vs) =
     io_bind (f (job_options b v))
       (\<lambda>err. case err of Some e \<Rightarrow> io_return (Some e) | None \<Rightarrow> Range_loop b f vs)"

definition Range_Destinations ::
  "BatchPullRequestOption \<Rightarrow> (pullRequestCreationOptions \<Rightarrow> (error option, 's) prog) \<Rightarrow>
   (error option, 's) prog" where
  "Range_Destinations b f = Range_loop b f (Destinations b)"

text \<open>
  The closure \<open>Do\<close> passes to \<open>Range\<close>. It captures the slice \<open>urls\<close>, so its state is
  that slice and the log; a job's URL is appended unless it is the empty string.
\<close>

definition Do_callback ::
  "env \<Rightarrow> pullRequestCreationOptions \<Rightarrow> (error option, string list \<times> call list) prog" where
  "Do_callback env option = (\<lambda>(urls, s).
     case do env option s of
       (Panicked, s') \<Rightarrow> (Panicked, (urls, s'))
     | (Returned (prURL, err), s') \<Rightarrow>
         (Returned err, (if prURL \<noteq> '''' then urls @ [prURL] else urls, s')))"

text \<open>
  \<open>Do\<close> has a pointer receiver and stores the author in the command's options, so the
  command as it is afterwards is returned with the URLs and the error. A nil slice and an
  empty slice are both the empty list.
\<close>

definition Do ::
  "env \<Rightarrow> BatchPullRequestCommand \<Rightarrow> (BatchPullRequestCommand \<times> string list \<times> error option) io" where
  "Do env f =
     io_bind (Users_Get env '''')
       (\<lambda>(u, err). case err of
          Some e \<Rightarrow> io_return (f, [], Some e)
        | None \<Rightarrow>
            (let f' = f\<lparr>options := (options f)\<lparr>authorName := GetName u, authorEmail := GetEmail u\<rparr>\<rparr>
             in (\<lambda>s. case Range_Destinations (options f') (Do_callback env) ([], s) of
                        (Panicked, (urls, s')) \<Rightarrow> (Panicked, s')
                      | (Returned err, (urls, s')) \<Rightarrow> (Returned (f', urls, err), s'))))"

section \<open>The vocabulary of the properties\<close>

subsection \<open>What a computation adds to the log\<close>

text \<open>
  A computation only appends to the log. \<open>emits P m\<close> says that every request \<open>m\<close>
  appends satisfies \<open>P\<close>, from whatever log it starts and however it ends.
\<close>

definition emits :: "(call \<Rightarrow> bool) \<Rightarrow> 'a io \<Rightarrow> bool" where
  "emits P m \<longleftrightarrow> (\<forall>s. \<exists>new. snd (m s) = s @ new \<and> list_all P new)"

text \<open>The requests a job with the options \<open>opts\<close> may make.\<close>

fun job_call :: "pullRequestCreationOptions \<Rightarrow> call \<Rightarrow> bool" where
  "job_call opts (UsersGet user) = False"
| "job_call opts (GitGetRef owner repo ref) = (owner = SourceOwner opts \<and> repo = SourceRepo opts)"
| "job_call opts (GitCreateRef owner repo ref) = (owner = ''mercadolibre'' \<and> repo = SourceRepo opts)"
| "job_call opts (GitCreateTree owner repo sha entries) =
     (owner = SourceOwner opts \<and> repo = SourceRepo opts)"
| "job_call opts (RepositoriesGetCommit owner repo sha) =
     (owner = SourceOwner opts \<and> repo = SourceRepo opts)"
| "job_call opts (GitCreateCommit owner repo commit) =
     (owner = SourceOwner opts \<and> repo = SourceRepo opts)"
| "job_call opts (GitUpdateRef owner repo ref force) =
     (owner = SourceOwner opts \<and> repo = SourceRepo opts \<and> \<not> force)"
| "job_call opts (PullRequestsCreate owner repo pull) =
     (owner = PullRequestOwner opts \<and> repo = PullRequestRepo opts)"
| "job_call opts (ReadFile name) = True"
| "job_call opts TimeNow = True"

text \<open>
  The step of a job a request belongs to: 1 resolves the reference, 2 builds the tree,
  3 publishes the commit, 4 opens the pull request. The user lookup belongs to no job.
\<close>

fun step_of :: "call \<Rightarrow> nat" where
  "step_of (UsersGet user) = 0"
| "step_of (GitGetRef owner repo ref) = 1"
| "step_of (GitCreateRef owner repo ref) = 1"
| "step_of (ReadFile name) = 2"
| "step_of (GitCreateTree owner repo sha entries) = 2"
| "step_of (RepositoriesGetCommit owner repo sha) = 3"
| "step_of TimeNow = 3"
| "step_of (GitCreateCommit owner repo commit) = 3"
| "step_of (GitUpdateRef owner repo ref force) = 3"
| "step_of (PullRequestsCreate owner repo pull) = 4"

definition emits_steps :: "nat \<Rightarrow> nat \<Rightarrow> 'a io \<Rightarrow> bool" where
  "emits_steps lo hi m \<longleftrightarrow>
     (\<forall>s. \<exists>new. snd (m s) = s @ new \<and> sorted (map step_of new) \<and>
        list_all (\<lambda>c. lo \<le> step_of c \<and> step_of c \<le> hi) new)"

fun forced :: "call \<Rightarrow> bool" where
  "forced (GitUpdateRef owner repo ref force) = force"
| "forced c = False"

fun is_update :: "call \<Rightarrow> bool" where
  "is_update (GitUpdateRef owner repo ref force) = True"
| "is_update c = False"

fun is_UsersGet :: "call \<Rightarrow> bool" where
  "is_UsersGet (UsersGet user) = True"
| "is_UsersGet c = False"

fun call_owner :: "call \<Rightarrow> string option" where
  "call_owner (UsersGet user) = None"
| "call_owner (GitGetRef owner repo ref) = Some owner"
| "call_owner (GitCreateRef owner repo ref) = Some owner"
| "call_owner (GitCreateTree owner repo sha entries) = Some owner"
| "call_owner (RepositoriesGetCommit owner repo sha) = Some owner"
| "call_owner (GitCreateCommit owner repo commit) = Some owner"
| "call_owner (GitUpdateRef owner repo ref force) = Some owner"
| "call_owner (PullRequestsCreate owner repo pull) = Some owner"
| "call_owner (ReadFile name) = None"
| "call_owner TimeNow = None"

fun call_repo :: "call \<Rightarrow> string option" where
  "call_repo (UsersGet user) = None"
| "call_repo (GitGetRef owner repo ref) = Some repo"
| "call_repo (GitCreateRef owner repo ref) = Some repo"
| "call_repo (GitCreateTree owner repo sha entries) = Some repo"
| "call_repo (RepositoriesGetCommit owner repo sha) = Some repo"
| "call_repo (GitCreateCommit owner repo commit) = Some repo"
| "call_repo (GitUpdateRef owner repo ref force) = Some repo"
| "call_repo (PullRequestsCreate owner repo pull) = Some repo"
| "call_repo (ReadFile name) = None"
| "call_repo TimeNow = None"

text \<open>
  A request made in the name of an author: a commit creation carries an author with
  exactly that name and e-mail; every other request carries no author.
\<close>

fun authored :: "string \<Rightarrow> string \<Rightarrow> call \<Rightarrow> bool" where
  "authored name email (GitCreateCommit owner repo commit) =
     (case Commit_Author commit of
        None \<Rightarrow> False
      | Some a \<Rightarrow> CommitAuthor_Name a = Some name \<and> CommitAuthor_Email a = Some email)"
| "authored name email c = True"

text \<open>What holds of every request of a batch after the user lookup.\<close>

definition batch_call :: "call \<Rightarrow> bool" where
  "batch_call c \<longleftrightarrow>
     \<not> is_UsersGet c \<and> \<not> forced c \<and> (call_owner c = None \<or> call_owner c = Some ''mercadolibre'')"

subsection \<open>Names for the requests of the reference resolver\<close>

definition head_lookup :: "pullRequestCreationOptions \<Rightarrow> call" where
  "head_lookup opts =
     GitGetRef (SourceOwner opts) (SourceRepo opts) (''refs/heads/'' @ CommitBranch opts)"

definition base_lookup :: "pullRequestCreationOptions \<Rightarrow> call" where
  "base_lookup opts =
     GitGetRef (SourceOwner opts) (SourceRepo opts) (''refs/heads/'' @ BaseBranch opts)"

text \<open>The reference of the commit branch's name at the object hash \<open>sha\<close>, and nothing else.\<close>

definition new_branch :: "pullRequestCreationOptions \<Rightarrow> string option \<Rightarrow> Reference" where
  "new_branch opts sha =
     \<lparr>Reference_Ref = Some (''refs/heads/'' @ CommitBranch opts), Reference_URL = None,
      Reference_Object = Some \<lparr>GitObject_Type = None, GitObject_SHA = sha, GitObject_URL = None\<rparr>,
      Reference_NodeID = None\<rparr>"

definition branch_creation :: "pullRequestCreationOptions \<Rightarrow> string option \<Rightarrow> call" where
  "branch_creation opts sha = GitCreateRef ''mercadolibre'' (SourceRepo opts) (new_branch opts sha)"

subsection \<open>Names for the paths of a file argument\<close>

text \<open>
  The two paths \<open>getFileContent\<close> takes from its argument, and the reads of a list of
  arguments in their order.
\<close>

definition local_path :: "string \<Rightarrow> string" where
  "local_path fileArg = strings_Split fileArg CHR '':'' ! 0"

definition target_path :: "string \<Rightarrow> string" where
  "target_path fileArg =
     (let files = strings_Split fileArg CHR '':''
      in if length files = 1 then files ! 0 else files ! 1)"

definition reads :: "string list \<Rightarrow> call list" where
  "reads fileArgs = map (\<lambda>fileArg. ReadFile (local_path fileArg)) fileArgs"

subsection \<open>The batch as the specification words it\<close>

text \<open>The command after \<open>Do\<close> has stored the author it looked up.\<close>

definition with_author :: "BatchPullRequestCommand \<Rightarrow> User option \<Rightarrow> BatchPullRequestCommand" where
  "with_author f u = f\<lparr>options := (options f)\<lparr>authorName := GetName u, authorEmail := GetEmail u\<rparr>\<rparr>"

text \<open>
  \<open>Expand\<close> in the specification's words: one job description per destination, in the
  order of the destinations, with the author identity and the shared fields of the batch,
  the destination giving the repository and the base branch.
\<close>

definition Expand :: "BatchPullRequestOption \<Rightarrow> string \<Rightarrow> string \<Rightarrow> pullRequestCreationOptions list" where
  "Expand spec name email =
     map (\<lambda>d.
       \<lparr>SourceOwner = ''mercadolibre'', PullRequestOwner = ''mercadolibre'',
        SourceRepo = Repository d, BaseBranch = Base d,
        CommitMessage = BatchPullRequestOption.CommitMessage spec, CommitBranch = Head spec,
        PullRequestRepo = Repository d, PullRequestBranch = Base d,
        PullRequestSubject = Subject spec, PullRequestBody = Body spec,
        Files = BatchPullRequestOption.Files spec, AuthorName = name, AuthorEmail = email\<rparr>)
       (Destinations spec)"

text \<open>
  \<open>RunAll\<close> in the specification's words: the jobs one after the other; a failing job
  ends the batch with its error, and the strings the jobs before it returned are kept.
\<close>

fun RunAll :: "env \<Rightarrow> pullRequestCreationOptions list \<Rightarrow> (string list \<times> error option) io" where
  "RunAll env [] = io_return ([], None)"
| "RunAll env (job # jobs) =
     io_bind (do env job)
       (\<lambda>(url, err). case err of
          Some e \<Rightarrow> io_return ([], Some e)
        | None \<Rightarrow> io_bind (RunAll env jobs) (\<lambda>(urls, err). io_return (url # urls, err)))"

section \<open>Example environments\<close>

text \<open>
  A hosting service on which the branch \<open>main\<close> exists in every repository and no other
  branch does, creating and updating a reference succeed, creating a commit fails in the
  repository \<open>r2\<close> only, and the one local file is \<open>README.md\<close>.
\<close>

definition latest :: "call list \<Rightarrow> call option" where
  "latest log = (if log = [] then None else Some (last log))"

definition example_user :: User where
  "example_user = \<lparr>User_Name = Some ''bot'', User_Email = Some ''bot@example.com''\<rparr>"

definition main_ref :: Reference where
  "main_ref =
     \<lparr>Reference_Ref = Some ''refs/heads/main'', Reference_URL = None,
      Reference_Object =
        Some \<lparr>GitObject_Type = Some ''commit'', GitObject_SHA = Some ''c0'', GitObject_URL = None\<rparr>,
      Reference_NodeID = None\<rparr>"

definition example_tree :: Tree where
  "example_tree = \<lparr>Tree_SHA = Some ''t1'', Tree_Entries = []\<rparr>"

definition example_env :: env where
  "example_env =
     \<lparr>user_reply = (\<lambda>log. Inr (Some example_user)),
      reference_reply = (\<lambda>log. case latest log of
          Some (GitGetRef owner repo ref) \<Rightarrow>
            if ref = ''refs/heads/main'' then Inr (Some main_ref)
            else Inl (ErrorString ''404 Not Found'')
        | Some (GitCreateRef owner repo ref) \<Rightarrow> Inr (Some ref)
        | Some (GitUpdateRef owner repo ref force) \<Rightarrow> Inr (Some ref)
        | _ \<Rightarrow> Inl (ErrorString ''unexpected'')),
      tree_reply = (\<lambda>log. Inr (Some example_tree)),
      repository_commit_reply = (\<lambda>log.
        Inr (Some \<lparr>RepositoryCommit_SHA = Some ''c0'',
                   RepositoryCommit_Commit = Some (Commit None None None None None [])\<rparr>)),
      commit_reply = (\<lambda>log. case latest log of
          Some (GitCreateCommit owner repo commit) \<Rightarrow>
            if repo = ''r2'' then Inl (ErrorString ''422 Unprocessable Entity'')
            else Inr (Some (Commit (Some ''c1'') None None None None []))
        | _ \<Rightarrow> Inl (ErrorString ''unexpected'')),
      pull_request_reply = (\<lambda>log. case latest log of
          Some (PullRequestsCreate owner repo pull) \<Rightarrow>
            Inr (Some \<lparr>PullRequest_HTMLURL =
              Some (''https://github.com/'' @ owner @ ''/'' @ repo @ ''/pull/1'')\<rparr>)
        | _ \<Rightarrow> Inl (ErrorString ''unexpected'')),
      file_reply = (\<lambda>log. case latest log of
          Some (ReadFile name) \<Rightarrow>
            if name = ''README.md'' then Inr ''hello''
            else Inl (''open'', ErrorString ''no such file or directory'')
        | _ \<Rightarrow> Inl (''open'', ErrorString ''unexpected'')),
      clock = length\<rparr>"

text \<open>The same service when every branch exists, when it cannot be reached, when it
  answers a reference lookup with no reference, and when it rejects every update of a
  reference that is not forced.\<close>

definition settled_env :: env where
  "settled_env = example_env\<lparr>reference_reply := (\<lambda>log. Inr (Some main_ref))\<rparr>"

definition offline_env :: env where
  "offline_env = example_env\<lparr>reference_reply := (\<lambda>log. Inl (ErrorString ''timeout''))\<rparr>"

definition silent_env :: env where
  "silent_env = example_env\<lparr>reference_reply := (\<lambda>log. Inr None)\<rparr>"

definition moved_env :: env where
  "moved_env =
     example_env\<lparr>reference_reply := (\<lambda>log. case latest log of
         Some (GitUpdateRef owner repo ref force) \<Rightarrow>
           if force then Inr (Some ref) else Inl (ErrorString ''422 Update is not a fast forward'')
       | _ \<Rightarrow> reference_reply example_env log)\<rparr>"

definition example_spec :: BatchPullRequestOption where
  "example_spec =
     \<lparr>BatchPullRequestOption.CommitMessage = ''Automatic Large Scale Change'',
      Subject = ''subject'', Body = ''body'',
      Destinations =
        [\<lparr>Repository = ''r1'', Base = ''main''\<rparr>, \<lparr>Repository = ''r2'', Base = ''main''\<rparr>,
         \<lparr>Repository = ''r3'', Base = ''main''\<rparr>],
      BatchPullRequestOption.Files = [''README.md''], authorName = '''', authorEmail = '''',
      Head = ''feature/x''\<rparr>"

definition example_job :: pullRequestCreationOptions where
  "example_job = job_options example_spec \<lparr>Repository = ''r1'', Base = ''main''\<rparr>"

section \<open>Running computations\<close>

lemma io_bind_return [simp]: "io_bind (io_return x) f s = f x s"
  by (simp add: io_bind_def io_return_def)

lemma io_bind_panic [simp]: "io_bind io_panic f s = (Panicked, s)"
  by (simp add: io_bind_def io_panic_def)

lemma io_bind_request [simp]: "io_bind (request c reply) f s = f (reply (s @ [c])) (s @ [c])"
  by (simp add: io_bind_def request_def)

lemma io_bind_deref_Some [simp]: "io_bind (deref (Some x)) f s = f x s"
  by (simp add: deref_def)

lemma io_bind_deref_None [simp]: "io_bind (deref None) f s = (Panicked, s)"
  by (simp add: deref_def)

section \<open>Splitting a file argument\<close>

lemma strings_Split_not_Nil [simp]: "strings_Split s sep \<noteq> []"
  by (induction s) (auto split: list.splits)

lemma strings_Split_no_sep: "sep \<notin> set s \<Longrightarrow> strings_Split s sep = [s]"
  by (induction s) auto

lemma strings_Split_first:
  "sep \<notin> set l \<Longrightarrow> strings_Split (l @ sep # r) sep = l # strings_Split r sep"
  by (induction l) auto

lemma hd_strings_Split: "hd (strings_Split r sep) = takeWhile (\<lambda>c. c \<noteq> sep) r"
  by (induction r) (auto split: list.splits)

lemma getFileContent_no_sep:
  "CHR '':'' \<notin> set e \<Longrightarrow>
   getFileContent env e = io_bind (ioutil_ReadFile env e) (\<lambda>(b, err). io_return (e, b, err))"
  by (simp add: getFileContent_def strings_Split_no_sep)

lemma getFileContent_sep:
  "CHR '':'' \<notin> set l \<Longrightarrow>
   getFileContent env (l @ CHR '':'' # r) =
     io_bind (ioutil_ReadFile env l)
       (\<lambda>(b, err). io_return (takeWhile (\<lambda>c. c \<noteq> CHR '':'') r, b, err))"
  using hd_strings_Split [of r "CHR '':''"]
  by (cases "strings_Split r CHR '':''") (simp_all add: getFileContent_def strings_Split_first)

lemma ioutil_ReadFile_run:
  "ioutil_ReadFile env name s =
     (Returned (case file_reply env (s @ [ReadFile name]) of
                  Inl (op, e) \<Rightarrow> ([], Some (PathError op name e))
                | Inr b \<Rightarrow> (b, None)), s @ [ReadFile name])"
  by (simp add: ioutil_ReadFile_def request_def)

section \<open>Invariants of the log\<close>

lemma emits_return: "emits P (io_return x)"
  by (simp add: emits_def io_return_def)

lemma emits_panic: "emits P io_panic"
  by (simp add: emits_def io_panic_def)

lemma emits_deref: "emits P (deref p)"
  by (cases p) (simp_all add: deref_def emits_return emits_panic)

lemma emits_request: "P c \<Longrightarrow> emits P (request c reply)"
  by (simp add: emits_def request_def)

lemma emits_bind:
  assumes m: "emits P m" and f: "\<And>x. emits P (f x)"
  shows "emits P (io_bind m f)"
  unfolding emits_def
proof
  fix s
  from m obtain n1 where n1: "snd (m s) = s @ n1" "list_all P n1"
    unfolding emits_def by blast
  show "\<exists>new. snd (io_bind m f s) = s @ new \<and> list_all P new"
  proof (cases "m s")
    case (Pair r s1)
    with n1 have s1: "s1 = s @ n1" by simp
    show ?thesis
    proof (cases r)
      case Panicked
      with Pair s1 n1 show ?thesis by (simp add: io_bind_def)
    next
      case (Returned x)
      from f [of x] obtain n2 where n2: "snd (f x s1) = s1 @ n2" "list_all P n2"
        unfolding emits_def by blast
      with Pair Returned s1 n1 have "snd (io_bind m f s) = s @ (n1 @ n2) \<and> list_all P (n1 @ n2)"
        by (simp add: io_bind_def)
      then show ?thesis by blast
    qed
  qed
qed

lemma emits_mono:
  assumes m: "emits P m" and PQ: "\<And>c. P c \<Longrightarrow> Q c"
  shows "emits Q m"
  unfolding emits_def
proof
  fix s
  from m obtain new where new: "snd (m s) = s @ new" "list_all P new"
    unfolding emits_def by blast
  from new(2) PQ have "list_all Q new"
    by (simp add: list_all_iff)
  with new(1) show "\<exists>new. snd (m s) = s @ new \<and> list_all Q new"
    by blast
qed

lemma emits_case_prod: "(\<And>a b. emits P (f a b)) \<Longrightarrow> emits P (case x of (a, b) \<Rightarrow> f a b)"
  by (cases x) simp

lemma emits_case_option:
  "emits P a \<Longrightarrow> (\<And>y. emits P (f y)) \<Longrightarrow> emits P (case x of None \<Rightarrow> a | Some y \<Rightarrow> f y)"
  by (cases x) simp_all

lemmas emits_intros =
  emits_bind emits_return emits_panic emits_deref emits_request emits_case_prod emits_case_option

lemma emits_getRef:
  assumes "\<And>ref. P (GitGetRef (SourceOwner opts) (SourceRepo opts) ref)"
    and "\<And>ref. P (GitCreateRef ''mercadolibre'' (SourceRepo opts) ref)"
  shows "emits P (getRef env opts)"
  unfolding getRef_def Git_GetRef_def Git_CreateRef_def
  by (auto intro!: emits_bind emits_return emits_deref emits_request assms
      split: prod.split option.split)

lemma emits_getFileContent:
  assumes "\<And>name. P (ReadFile name)"
  shows "emits P (getFileContent env fileArg)"
  unfolding getFileContent_def ioutil_ReadFile_def Let_def
  by (auto intro!: emits_intros assms)

lemma emits_getTree_loop:
  assumes "\<And>name. P (ReadFile name)"
  shows "emits P (getTree_loop env files entries)"
proof (induction files arbitrary: entries)
  case Nil
  show ?case by (simp add: emits_return)
next
  case (Cons fileArg rest)
  show ?case
    by (simp del: split_paired_All) (intro emits_intros emits_getFileContent assms Cons.IH)
qed

lemma emits_getTree:
  assumes "\<And>name. P (ReadFile name)"
    and "\<And>sha entries. P (GitCreateTree (SourceOwner opts) (SourceRepo opts) sha entries)"
  shows "emits P (getTree env opts ref)"
  unfolding getTree_def Git_CreateTree_def
  by (intro emits_intros emits_getTree_loop assms)

lemma emits_pushCommit:
  assumes "\<And>sha. P (RepositoriesGetCommit (SourceOwner opts) (SourceRepo opts) sha)"
    and "P TimeNow"
    and "\<And>commit. P (GitCreateCommit (SourceOwner opts) (SourceRepo opts) commit)"
    and "\<And>r. P (GitUpdateRef (SourceOwner opts) (SourceRepo opts) r False)"
  shows "emits P (pushCommit env opts ref tree)"
  unfolding pushCommit_def Repositories_GetCommit_def time_Now_def Git_CreateCommit_def
    Git_UpdateRef_def
  by (intro emits_intros assms)

lemma emits_createPR:
  assumes "\<And>pull. P (PullRequestsCreate (PullRequestOwner opts) (PullRequestRepo opts) pull)"
  shows "emits P (createPR env opts)"
  unfolding createPR_def PullRequests_Create_def
  by (intro emits_intros assms)

lemma emits_do: "emits (job_call opts) (do env opts)"
  unfolding do_def
  by (intro emits_intros emits_getRef emits_getTree emits_pushCommit emits_createPR) simp_all

section \<open>The batch loop against the specification's \<open>RunAll\<close>\<close>

lemma do_error_no_url:
  "do env opts s = (Returned (url, Some e), s') \<Longrightarrow> url = ''''"
  unfolding do_def createPR_def io_bind_def io_return_def
  by (auto split: prod.splits option.splits outcome.splits)

lemma Do_callback_run:
  "Do_callback env option (urls, s) =
     (case do env option s of
        (Panicked, s') \<Rightarrow> (Panicked, (urls, s'))
      | (Returned (prURL, err), s') \<Rightarrow>
          (Returned err, (if prURL \<noteq> '''' then urls @ [prURL] else urls, s')))"
  by (simp add: Do_callback_def)

lemma Range_loop_Returned:
  "RunAll env (map (job_options b) vs) s = (Returned (us, err), s') \<Longrightarrow>
   Range_loop b (Do_callback env) vs (acc, s) =
     (Returned err, (acc @ filter (\<lambda>u. u \<noteq> '''') us, s'))"
proof (induction vs arbitrary: acc s us)
  case Nil
  then show ?case by (simp add: io_return_def)
next
  case (Cons v vs)
  obtain r s1 where d: "do env (job_options b v) s = (r, s1)"
    by (cases "do env (job_options b v) s")
  show ?case
  proof (cases r)
    case Panicked
    with Cons.prems d show ?thesis by (simp add: io_bind_def)
  next
    case (Returned p)
    obtain url e where p: "p = (url, e)" by (cases p)
    show ?thesis
    proof (cases e)
      case (Some x)
      with Cons.prems d Returned p do_error_no_url [of env "job_options b v" s url x s1]
      show ?thesis
        by (auto simp: io_bind_def io_return_def Do_callback_run)
    next
      case None
      obtain r2 s2 where r2: "RunAll env (map (job_options b) vs) s1 = (r2, s2)"
        by (cases "RunAll env (map (job_options b) vs) s1")
      with Cons.prems d Returned p None obtain us' where
        us': "r2 = Returned (us', err)" "us = url # us'" "s2 = s'"
        by (auto simp: io_bind_def io_return_def split: outcome.splits prod.splits)
      from Cons.IH [of s1 us' "if url \<noteq> '''' then acc @ [url] else acc"] r2 us'
      have "Range_loop b (Do_callback env) vs (if url \<noteq> '''' then acc @ [url] else acc, s1) =
          (Returned err, ((if url \<noteq> '''' then acc @ [url] else acc) @ filter (\<lambda>u. u \<noteq> '''') us', s'))"
        by simp
      with d Returned p None us' show ?thesis
        by (simp add: io_bind_def Do_callback_run)
    qed
  qed
qed

lemma Range_loop_Panicked:
  "RunAll env (map (job_options b) vs) s = (Panicked, s') \<Longrightarrow>
   \<exists>urls. Range_loop b (Do_callback env) vs (acc, s) = (Panicked, (urls, s'))"
proof (induction vs arbitrary: acc s)
  case Nil
  then show ?case by (simp add: io_return_def)
next
  case (Cons v vs)
  obtain r s1 where d: "do env (job_options b v) s = (r, s1)"
    by (cases "do env (job_options b v) s")
  show ?case
  proof (cases r)
    case Panicked
    with Cons.prems d show ?thesis by (simp add: io_bind_def Do_callback_run)
  next
    case (Returned p)
    obtain url e where p: "p = (url, e)" by (cases p)
    show ?thesis
    proof (cases e)
      case (Some x)
      with Cons.prems d Returned p show ?thesis
        by (simp add: io_bind_def io_return_def)
    next
      case None
      with Cons.prems d Returned p have "RunAll env (map (job_options b) vs) s1 = (Panicked, s')"
        by (auto simp: io_bind_def io_return_def split: outcome.splits prod.splits)
      from Cons.IH [OF this, of "if url \<noteq> '''' then acc @ [url] else acc"]
      show ?thesis using d Returned p None
        by (simp add: io_bind_def Do_callback_run)
    qed
  qed
qed

lemma Do_lookup_error:
  "user_reply env (s @ [UsersGet '''']) = Inl e \<Longrightarrow>
   Do env f s = (Returned (f, [], Some e), s @ [UsersGet ''''])"
  by (simp add: Do_def Users_Get_def go_result_def io_return_def)

lemma Do_RunAll_Returned:
  assumes "user_reply env (s @ [UsersGet '''']) = Inr u"
    and "RunAll env (map (job_options (options (with_author f u))) (Destinations (options f)))
           (s @ [UsersGet '''']) = (Returned (us, err), s')"
  shows "Do env f s = (Returned (with_author f u, filter (\<lambda>u. u \<noteq> '''') us, err), s')"
  using assms Range_loop_Returned [of env "options (with_author f u)" "Destinations (options f)"
      "s @ [UsersGet '''']" us err s' "[]"]
  by (simp add: Do_def Users_Get_def go_result_def Range_Destinations_def with_author_def)

lemma Do_RunAll_Panicked:
  assumes "user_reply env (s @ [UsersGet '''']) = Inr u"
    and "RunAll env (map (job_options (options (with_author f u))) (Destinations (options f)))
           (s @ [UsersGet '''']) = (Panicked, s')"
  shows "Do env f s = (Panicked, s')"
  using assms Range_loop_Panicked [of env "options (with_author f u)" "Destinations (options f)"
      "s @ [UsersGet '''']" s' "[]"]
  by (auto simp: Do_def Users_Get_def go_result_def Range_Destinations_def with_author_def)

section \<open>Lemmas on the reference resolver\<close>

lemma Git_GetRef_run:
  "Git_GetRef env owner repo ref s =
     (Returned (go_result (reference_reply env (s @ [GitGetRef owner repo ref]))),
      s @ [GitGetRef owner repo ref])"
  by (simp add: Git_GetRef_def request_def)

lemma Git_CreateRef_run:
  "Git_CreateRef env owner repo ref s =
     (Returned (go_result (reference_reply env (s @ [GitCreateRef owner repo ref]))),
      s @ [GitCreateRef owner repo ref])"
  by (simp add: Git_CreateRef_def request_def)

lemma getRef_found:
  assumes "reference_reply env (s @ [GitGetRef (SourceOwner opts) (SourceRepo opts)
             (''refs/heads/'' @ CommitBranch opts)]) = Inr ref"
  shows "getRef env opts s =
     (Returned (ref, None),
      s @ [GitGetRef (SourceOwner opts) (SourceRepo opts) (''refs/heads/'' @ CommitBranch opts)])"
  using assms
  by (simp add: getRef_def io_bind_def Git_GetRef_run go_result_def io_return_def)

lemma getRef_no_base:
  assumes "reference_reply env (s @ [GitGetRef (SourceOwner opts) (SourceRepo opts)
             (''refs/heads/'' @ CommitBranch opts)]) = Inl e"
    and "reference_reply env (s @ [GitGetRef (SourceOwner opts) (SourceRepo opts)
             (''refs/heads/'' @ CommitBranch opts),
           GitGetRef (SourceOwner opts) (SourceRepo opts) (''refs/heads/'' @ BaseBranch opts)]) = Inl e'"
  shows "getRef env opts s =
     (Returned (None, Some (WrapError ''unable to get base ref: '' e')),
      s @ [GitGetRef (SourceOwner opts) (SourceRepo opts) (''refs/heads/'' @ CommitBranch opts),
           GitGetRef (SourceOwner opts) (SourceRepo opts) (''refs/heads/'' @ BaseBranch opts)])"
  using assms
  by (simp add: getRef_def io_bind_def Git_GetRef_run go_result_def io_return_def)

lemma getRef_created:
  assumes "reference_reply env (s @ [GitGetRef (SourceOwner opts) (SourceRepo opts)
             (''refs/heads/'' @ CommitBranch opts)]) = Inl e"
    and "reference_reply env (s @ [GitGetRef (SourceOwner opts) (SourceRepo opts)
             (''refs/heads/'' @ CommitBranch opts),
           GitGetRef (SourceOwner opts) (SourceRepo opts) (''refs/heads/'' @ BaseBranch opts)])
         = Inr (Some base)"
    and "Reference_Object base = Some obj"
  shows "getRef env opts s =
     (Returned (go_result (reference_reply env
        (s @ [GitGetRef (SourceOwner opts) (SourceRepo opts) (''refs/heads/'' @ CommitBranch opts),
              GitGetRef (SourceOwner opts) (SourceRepo opts) (''refs/heads/'' @ BaseBranch opts),
              GitCreateRef ''mercadolibre'' (SourceRepo opts) (new_branch opts (GitObject_SHA obj))]))),
      s @ [GitGetRef (SourceOwner opts) (SourceRepo opts) (''refs/heads/'' @ CommitBranch opts),
           GitGetRef (SourceOwner opts) (SourceRepo opts) (''refs/heads/'' @ BaseBranch opts),
           GitCreateRef ''mercadolibre'' (SourceRepo opts) (new_branch opts (GitObject_SHA obj))])"
  using assms
  by (simp add: getRef_def io_bind_def Git_GetRef_run Git_CreateRef_run go_result_def
      io_return_def deref_def new_branch_def)

lemma getRef_base_malformed:
  assumes "reference_reply env (s @ [GitGetRef (SourceOwner opts) (SourceRepo opts)
             (''refs/heads/'' @ CommitBranch opts)]) = Inl e"
    and "reference_reply env (s @ [GitGetRef (SourceOwner opts) (SourceRepo opts)
             (''refs/heads/'' @ CommitBranch opts),
           GitGetRef (SourceOwner opts) (SourceRepo opts) (''refs/heads/'' @ BaseBranch opts)])
         = Inr base"
    and "base = None \<or> (\<exists>b. base = Some b \<and> Reference_Object b = None)"
  shows "fst (getRef env opts s) = Panicked"
  using assms
  by (auto simp: getRef_def io_bind_def Git_GetRef_run go_result_def io_return_def deref_def
      io_panic_def)

section \<open>The order of the steps of a job\<close>

lemma sorted_constant: "list_all (\<lambda>c. step_of c = k) new \<Longrightarrow> sorted (map step_of new)"
  by (induction new) (auto simp: list_all_iff)

lemma emits_steps_single:
  assumes "emits (\<lambda>c. step_of c = k) m" and "lo \<le> k" and "k \<le> hi"
  shows "emits_steps lo hi m"
  unfolding emits_steps_def
proof
  fix s
  from assms(1) obtain new where new: "snd (m s) = s @ new" "list_all (\<lambda>c. step_of c = k) new"
    unfolding emits_def by blast
  from new(2) assms(2,3) have "list_all (\<lambda>c. lo \<le> step_of c \<and> step_of c \<le> hi) new"
    by (simp add: list_all_iff)
  with new sorted_constant [OF new(2)]
  show "\<exists>new. snd (m s) = s @ new \<and> sorted (map step_of new) \<and>
        list_all (\<lambda>c. lo \<le> step_of c \<and> step_of c \<le> hi) new"
    by blast
qed

lemma emits_steps_return: "emits_steps lo hi (io_return x)"
  by (simp add: emits_steps_def io_return_def)

lemma emits_steps_bind:
  assumes m: "emits_steps lo mid m" and f: "\<And>x. emits_steps mid hi (f x)"
    and le: "lo \<le> mid" "mid \<le> hi"
  shows "emits_steps lo hi (io_bind m f)"
  unfolding emits_steps_def
proof
  fix s
  from m obtain n1 where n1: "snd (m s) = s @ n1" "sorted (map step_of n1)"
      "list_all (\<lambda>c. lo \<le> step_of c \<and> step_of c \<le> mid) n1"
    unfolding emits_steps_def by blast
  from n1(3) le have n1': "list_all (\<lambda>c. lo \<le> step_of c \<and> step_of c \<le> hi) n1"
    by (simp add: list_all_iff) (meson order_trans)
  show "\<exists>new. snd (io_bind m f s) = s @ new \<and> sorted (map step_of new) \<and>
        list_all (\<lambda>c. lo \<le> step_of c \<and> step_of c \<le> hi) new"
  proof (cases "m s")
    case (Pair r s1)
    with n1 have s1: "s1 = s @ n1" by simp
    show ?thesis
    proof (cases r)
      case Panicked
      with Pair s1 n1 n1' show ?thesis by (simp add: io_bind_def)
    next
      case (Returned x)
      from f [of x] obtain n2 where n2: "snd (f x s1) = s1 @ n2" "sorted (map step_of n2)"
          "list_all (\<lambda>c. mid \<le> step_of c \<and> step_of c \<le> hi) n2"
        unfolding emits_steps_def by blast
      from n2(3) le have n2': "list_all (\<lambda>c. lo \<le> step_of c \<and> step_of c \<le> hi) n2"
        by (simp add: list_all_iff) (meson order_trans)
      from n1(3) n2(3) have "\<forall>a \<in> set n1. \<forall>b \<in> set n2. step_of a \<le> step_of b"
        by (simp add: list_all_iff) (meson order_trans)
      with n1(2) n2(2) have "sorted (map step_of (n1 @ n2))"
        by (simp add: sorted_append)
      with Pair Returned s1 n1' n2' n2(1)
      have "snd (io_bind m f s) = s @ (n1 @ n2) \<and> sorted (map step_of (n1 @ n2)) \<and>
          list_all (\<lambda>c. lo \<le> step_of c \<and> step_of c \<le> hi) (n1 @ n2)"
        by (simp add: io_bind_def)
      then show ?thesis by blast
    qed
  qed
qed

lemma getRef_step: "emits (\<lambda>c. step_of c = 1) (getRef env opts)"
  by (rule emits_getRef) simp_all

lemma getTree_step: "emits (\<lambda>c. step_of c = 2) (getTree env opts ref)"
  by (rule emits_getTree) simp_all

lemma pushCommit_step: "emits (\<lambda>c. step_of c = 3) (pushCommit env opts ref tree)"
  by (rule emits_pushCommit) simp_all

lemma createPR_step: "emits (\<lambda>c. step_of c = 4) (createPR env opts)"
  by (rule emits_createPR) simp_all

lemma emits_steps_case_prod:
  "(\<And>a b. emits_steps lo hi (f a b)) \<Longrightarrow> emits_steps lo hi (case x of (a, b) \<Rightarrow> f a b)"
  by (cases x) simp

lemma emits_steps_case_option:
  "emits_steps lo hi a \<Longrightarrow> (\<And>y. emits_steps lo hi (f y)) \<Longrightarrow>
   emits_steps lo hi (case x of None \<Rightarrow> a | Some y \<Rightarrow> f y)"
  by (cases x) simp_all

lemma do_steps: "emits_steps 1 4 (do env opts)"
proof -
  have ref: "emits_steps 1 1 (getRef env opts)"
    by (rule emits_steps_single [OF getRef_step]) simp_all
  have tree: "emits_steps 1 2 (getTree env opts r)" for r
    by (rule emits_steps_single [OF getTree_step]) simp_all
  have commit: "emits_steps 2 3 (pushCommit env opts r t)" for r t
    by (rule emits_steps_single [OF pushCommit_step]) simp_all
  have pr: "emits_steps 3 4 (createPR env opts)"
    by (rule emits_steps_single [OF createPR_step]) simp_all
  show ?thesis
    unfolding do_def
    by (intro emits_steps_bind [OF ref] emits_steps_bind [OF tree] emits_steps_bind [OF commit]
        emits_steps_case_prod emits_steps_case_option emits_steps_return pr) simp_all
qed

lemma do_ref_failed:
  "getRef env opts s = (Returned (ref, Some e), s1) \<Longrightarrow>
   do env opts s = (Returned ('''', Some e), s1)"
  by (simp add: do_def io_bind_def io_return_def)

lemma do_ref_nil:
  "getRef env opts s = (Returned (None, None), s1) \<Longrightarrow>
   do env opts s =
     (Returned ('''', Some (ErrorString ''no error where returned but the reference is nil'')), s1)"
  by (simp add: do_def io_bind_def io_return_def)

lemma do_tree_failed:
  "getRef env opts s = (Returned (Some r, None), s1) \<Longrightarrow>
   getTree env opts (Some r) s1 = (Returned (tree, Some e), s2) \<Longrightarrow>
   do env opts s =
     (Returned ('''', Some (WrapError ''unable to create the tree based on the provided files: '' e)),
      s2)"
  by (simp add: do_def io_bind_def io_return_def)

lemma do_commit_failed:
  "getRef env opts s = (Returned (Some r, None), s1) \<Longrightarrow>
   getTree env opts (Some r) s1 = (Returned (tree, None), s2) \<Longrightarrow>
   pushCommit env opts (Some r) tree s2 = (Returned (Some e), s3) \<Longrightarrow>
   do env opts s = (Returned ('''', Some (WrapError ''unable to create the commit: '' e)), s3)"
  by (simp add: do_def io_bind_def io_return_def)

lemma do_all_steps:
  "getRef env opts s = (Returned (Some r, None), s1) \<Longrightarrow>
   getTree env opts (Some r) s1 = (Returned (tree, None), s2) \<Longrightarrow>
   pushCommit env opts (Some r) tree s2 = (Returned None, s3) \<Longrightarrow>
   do env opts s = createPR env opts s3"
  by (simp add: do_def io_bind_def io_return_def)

section \<open>Lemmas on the commit publisher\<close>

lemma Git_UpdateRef_nil_name:
  "Reference_Ref ref = None \<Longrightarrow> Git_UpdateRef env owner repo ref force s = (Panicked, s)"
  by (simp add: Git_UpdateRef_def)

lemma those_None: "None \<in> set xs \<Longrightarrow> those xs = None"
  by (induction xs) (auto split: option.splits)

lemma Git_CreateCommit_nil_parent_hash:
  assumes "Commit_SHA parent = None" and "parent \<in> set (Commit_Parents commit)"
  shows "Git_CreateCommit env owner repo commit s = (Panicked, s)"
proof -
  from assms have "None \<in> set (map Commit_SHA (Commit_Parents commit))"
    by force
  then have "those (map Commit_SHA (Commit_Parents commit)) = None"
    by (rule those_None)
  then show ?thesis
    by (simp add: Git_CreateCommit_def)
qed

lemma job_call_not_forced: "job_call opts c \<Longrightarrow> \<not> forced c"
  by (cases c) simp_all

lemma pushCommit_not_forced: "emits (\<lambda>c. \<not> forced c) (pushCommit env opts ref tree)"
  by (rule emits_pushCommit) simp_all

lemma pushCommit_update_rejected:
  assumes run: "pushCommit env opts ref tree s = (r, s')"
    and last: "s' = s @ new @ [c]" "is_update c"
    and reply: "reference_reply env s' = Inl e"
  shows "r = Returned (Some e)"
  using assms
  unfolding pushCommit_def Repositories_GetCommit_def time_Now_def Git_CreateCommit_def
    Git_UpdateRef_def
  by (auto simp: io_bind_def request_def deref_def io_panic_def io_return_def go_result_def
      snoc_eq_iff_butlast
      split: option.splits prod.splits sum.splits outcome.splits)

section \<open>Lemmas on the tree builder\<close>

lemma getFileContent_run:
  "getFileContent env fileArg s =
     (Returned (target_path fileArg,
        (case file_reply env (s @ [ReadFile (local_path fileArg)]) of
           Inl (op, e) \<Rightarrow> ([], Some (PathError op (local_path fileArg) e))
         | Inr b \<Rightarrow> (b, None))),
      s @ [ReadFile (local_path fileArg)])"
  by (cases "strings_Split fileArg CHR '':''")
    (auto simp: getFileContent_def local_path_def target_path_def Let_def io_bind_def
      ioutil_ReadFile_run io_return_def split: prod.splits sum.splits)

lemma split_paths:
  "CHR '':'' \<notin> set l \<Longrightarrow>
   local_path (l @ CHR '':'' # r) = l \<and>
   target_path (l @ CHR '':'' # r) = takeWhile (\<lambda>c. c \<noteq> CHR '':'') r"
  using hd_strings_Split [of r "CHR '':''"]
  by (cases "strings_Split r CHR '':''")
    (simp_all add: local_path_def target_path_def strings_Split_first)

lemma getTree_loop_read_all:
  assumes "length contents = length fileArgs"
    and "\<forall>i < length fileArgs.
           file_reply env (s @ reads (take (Suc i) fileArgs)) = Inr (contents ! i)"
  shows "getTree_loop env fileArgs entries s =
     (Returned (entries @ map2 (\<lambda>a c. blob_entry (target_path a) c) fileArgs contents, None),
      s @ reads fileArgs)"
  using assms
proof (induction fileArgs arbitrary: contents entries s)
  case Nil
  then show ?case by (simp add: io_return_def reads_def)
next
  case (Cons a rest)
  then obtain c cs where contents: "contents = c # cs" "length cs = length rest"
    by (cases contents) auto
  from Cons.prems(2) have first: "file_reply env (s @ [ReadFile (local_path a)]) = Inr c"
    using contents by (auto simp: reads_def dest: spec [of _ 0])
  have later: "\<forall>i < length rest.
      file_reply env ((s @ [ReadFile (local_path a)]) @ reads (take (Suc i) rest)) = Inr (cs ! i)"
  proof (intro allI impI)
    fix i assume "i < length rest"
    with Cons.prems(2) contents
    have "file_reply env (s @ reads (take (Suc (Suc i)) (a # rest))) = Inr ((c # cs) ! Suc i)"
      by auto
    then show "file_reply env ((s @ [ReadFile (local_path a)]) @ reads (take (Suc i) rest)) = Inr (cs ! i)"
      by (simp add: reads_def)
  qed
  from Cons.IH [OF contents(2) later, of "entries @ [blob_entry (target_path a) c]"]
  show ?case using first contents
    by (simp add: io_bind_def getFileContent_run reads_def)
qed

lemma getTree_loop_unreadable:
  assumes "i < length fileArgs"
    and "\<forall>j < i. \<not> isl (file_reply env (s @ reads (take (Suc j) fileArgs)))"
    and "file_reply env (s @ reads (take (Suc i) fileArgs)) = Inl (op, e)"
  shows "\<exists>es. getTree_loop env fileArgs entries s =
     (Returned (es, Some (PathError op (local_path (fileArgs ! i)) e)),
      s @ reads (take (Suc i) fileArgs))"
  using assms
proof (induction fileArgs arbitrary: i entries s)
  case Nil
  then show ?case by simp
next
  case (Cons a rest)
  show ?case
  proof (cases i)
    case 0
    with Cons.prems(3) show ?thesis
      by (simp add: io_bind_def getFileContent_run reads_def io_return_def)
  next
    case (Suc k)
    from Cons.prems(2) Suc have "\<not> isl (file_reply env (s @ reads (take (Suc 0) (a # rest))))"
      by blast
    then obtain c where first: "file_reply env (s @ [ReadFile (local_path a)]) = Inr c"
      by (cases "file_reply env (s @ [ReadFile (local_path a)])") (simp_all add: reads_def)
    have k: "k < length rest" using Cons.prems(1) Suc by simp
    have earlier: "\<forall>j < k. \<not> isl (file_reply env ((s @ [ReadFile (local_path a)]) @ reads (take (Suc j) rest)))"
    proof (intro allI impI)
      fix j assume "j < k"
      with Cons.prems(2) Suc
      have "\<not> isl (file_reply env (s @ reads (take (Suc (Suc j)) (a # rest))))"
        by auto
      then show "\<not> isl (file_reply env ((s @ [ReadFile (local_path a)]) @ reads (take (Suc j) rest)))"
        by (simp add: reads_def)
    qed
    have failing: "file_reply env ((s @ [ReadFile (local_path a)]) @ reads (take (Suc k) rest)) = Inl (op, e)"
      using Cons.prems(3) Suc by (simp add: reads_def)
    from Cons.IH [OF k earlier failing, of "entries @ [blob_entry (target_path a) c]"]
    show ?thesis using first Suc
      by (simp add: io_bind_def getFileContent_run reads_def)
  qed
qed

lemma Git_CreateTree_run:
  "Git_CreateTree env owner repo sha entries s =
     (Returned (go_result (tree_reply env (s @ [GitCreateTree owner repo sha entries]))),
      s @ [GitCreateTree owner repo sha entries])"
  by (simp add: Git_CreateTree_def request_def)

lemma getTree_built:
  assumes ref: "Reference_Object r = Some obj" "GitObject_SHA obj = Some sha"
    and len: "length contents = length (Files opts)"
    and files: "\<forall>i < length (Files opts).
           file_reply env (s @ reads (take (Suc i) (Files opts))) = Inr (contents ! i)"
  shows "getTree env opts (Some r) s =
     (Returned (go_result (tree_reply env
        (s @ reads (Files opts) @
           [GitCreateTree (SourceOwner opts) (SourceRepo opts) sha
              (map2 (\<lambda>a c. blob_entry (target_path a) c) (Files opts) contents)]))),
      s @ reads (Files opts) @
        [GitCreateTree (SourceOwner opts) (SourceRepo opts) sha
           (map2 (\<lambda>a c. blob_entry (target_path a) c) (Files opts) contents)])"
  using ref getTree_loop_read_all [OF len files, of "[]"]
  by (simp add: getTree_def io_bind_def Git_CreateTree_run deref_def io_return_def)

lemma getTree_unreadable:
  assumes "i < length (Files opts)"
    and "\<forall>j < i. \<not> isl (file_reply env (s @ reads (take (Suc j) (Files opts))))"
    and "file_reply env (s @ reads (take (Suc i) (Files opts))) = Inl (op, e)"
  shows "getTree env opts ref s =
     (Returned (None, Some (PathError op (local_path (Files opts ! i)) e)),
      s @ reads (take (Suc i) (Files opts)))"
  using getTree_loop_unreadable [OF assms, of "[]"]
  by (auto simp: getTree_def io_bind_def io_return_def)

section \<open>Lemmas on the batch\<close>

lemma job_call_batch_call: "job_call (job_options b v) c \<Longrightarrow> batch_call c"
  by (cases c) (simp_all add: batch_call_def job_options_def)

lemma emits_RunAll:
  assumes "\<And>job c. job \<in> set jobs \<Longrightarrow> job_call job c \<Longrightarrow> P c"
  shows "emits P (RunAll env jobs)"
  using assms
proof (induction jobs)
  case Nil
  show ?case by (simp add: emits_return)
next
  case (Cons job jobs)
  have first: "emits P (do env job)"
  proof (rule emits_mono [OF emits_do])
    fix c assume "job_call job c"
    with Cons.prems [of job c] show "P c" by simp
  qed
  have rest: "emits P (RunAll env jobs)"
  proof (rule Cons.IH)
    fix j c assume "j \<in> set jobs" "job_call j c"
    with Cons.prems [of j c] show "P c" by simp
  qed
  show ?case
    by (simp del: split_paired_All) (intro emits_intros first rest)
qed

lemma Do_log:
  "\<exists>rest. snd (Do env f s) = s @ UsersGet '''' # rest \<and> list_all batch_call rest"
proof (cases "user_reply env (s @ [UsersGet ''''])")
  case (Inl e)
  then show ?thesis by (simp add: Do_lookup_error)
next
  case (Inr u)
  let ?jobs = "map (job_options (options (with_author f u))) (Destinations (options f))"
  have "emits batch_call (RunAll env ?jobs)"
    by (rule emits_RunAll) (auto simp: job_call_batch_call)
  then obtain rest where rest:
    "snd (RunAll env ?jobs (s @ [UsersGet ''''])) = (s @ [UsersGet '''']) @ rest"
    "list_all batch_call rest"
    unfolding emits_def by blast
  obtain r s' where run: "RunAll env ?jobs (s @ [UsersGet '''']) = (r, s')"
    by (cases "RunAll env ?jobs (s @ [UsersGet ''''])")
  have "snd (Do env f s) = s'"
  proof (cases r)
    case Panicked
    with run Do_RunAll_Panicked [OF Inr, of f s'] show ?thesis by simp
  next
    case (Returned p)
    obtain us err where "p = (us, err)" by (cases p)
    with Returned run Do_RunAll_Returned [OF Inr, of f us err s'] show ?thesis by simp
  qed
  with rest run show ?thesis by simp
qed

lemma pushCommit_authored:
  "emits (authored (AuthorName opts) (AuthorEmail opts)) (pushCommit env opts ref tree)"
  unfolding pushCommit_def Repositories_GetCommit_def time_Now_def Git_CreateCommit_def
    Git_UpdateRef_def
  by (intro emits_intros) simp_all

lemma do_authored: "emits (authored (AuthorName opts) (AuthorEmail opts)) (do env opts)"
  unfolding do_def
  by (intro emits_intros emits_getRef emits_getTree pushCommit_authored emits_createPR) simp_all

lemma RunAll_authored:
  assumes "\<And>job. job \<in> set jobs \<Longrightarrow> AuthorName job = name \<and> AuthorEmail job = email"
  shows "emits (authored name email) (RunAll env jobs)"
  using assms
proof (induction jobs)
  case Nil
  show ?case by (simp add: emits_return)
next
  case (Cons job jobs)
  have first: "emits (authored name email) (do env job)"
    using do_authored [of job env] Cons.prems [of job] by simp
  have rest: "emits (authored name email) (RunAll env jobs)"
  proof (rule Cons.IH)
    fix j assume "j \<in> set jobs"
    with Cons.prems [of j] show "AuthorName j = name \<and> AuthorEmail j = email" by simp
  qed
  show ?case
    by (simp del: split_paired_All) (intro emits_intros first rest)
qed

lemma Do_authored_log:
  assumes lookup: "user_reply env (s @ [UsersGet '''']) = Inr u"
  shows "\<exists>rest. snd (Do env f s) = s @ UsersGet '''' # rest \<and>
      list_all (authored (GetName u) (GetEmail u)) rest"
proof -
  let ?jobs = "map (job_options (options (with_author f u))) (Destinations (options f))"
  have "emits (authored (GetName u) (GetEmail u)) (RunAll env ?jobs)"
    by (rule RunAll_authored) (auto simp: job_options_def with_author_def)
  then obtain rest where rest:
    "snd (RunAll env ?jobs (s @ [UsersGet ''''])) = (s @ [UsersGet '''']) @ rest"
    "list_all (authored (GetName u) (GetEmail u)) rest"
    unfolding emits_def by blast
  obtain r s' where run: "RunAll env ?jobs (s @ [UsersGet '''']) = (r, s')"
    by (cases "RunAll env ?jobs (s @ [UsersGet ''''])")
  have "snd (Do env f s) = s'"
  proof (cases r)
    case Panicked
    with run Do_RunAll_Panicked [OF lookup, of f s'] show ?thesis by simp
  next
    case (Returned p)
    obtain us err where "p = (us, err)" by (cases p)
    with Returned run Do_RunAll_Returned [OF lookup, of f us err s'] show ?thesis by simp
  qed
  with rest run show ?thesis by simp
qed

lemma Do_frame:
  assumes "Do env f s = (Returned (f', urls, err), s')"
  shows "f' = f \<or> (\<exists>u. f' = with_author f u)"
proof (cases "user_reply env (s @ [UsersGet ''''])")
  case (Inl e)
  with assms show ?thesis by (simp add: Do_lookup_error)
next
  case (Inr u)
  let ?jobs = "map (job_options (options (with_author f u))) (Destinations (options f))"
  obtain r s1 where run: "RunAll env ?jobs (s @ [UsersGet '''']) = (r, s1)"
    by (cases "RunAll env ?jobs (s @ [UsersGet ''''])")
  show ?thesis
  proof (cases r)
    case Panicked
    with run Do_RunAll_Panicked [OF Inr, of f s1] assms show ?thesis by simp
  next
    case (Returned p)
    obtain us e where "p = (us, e)" by (cases p)
    with Returned run Do_RunAll_Returned [OF Inr, of f us e s1] assms show ?thesis by auto
  qed
qed

lemma RunAll_append_failure:
  assumes "RunAll env pre s = (Returned (us, None), s1)"
    and "do env job s1 = (Returned (x, Some e), s2)"
  shows "RunAll env (pre @ job # post) s = (Returned (us, Some e), s2)"
  using assms
proof (induction pre arbitrary: s us)
  case Nil
  then show ?case by (simp add: io_bind_def io_return_def)
next
  case (Cons j pre)
  from Cons.prems(1) obtain url us' s' where
    j: "do env j s = (Returned (url, None), s')"
    and rest: "RunAll env pre s' = (Returned (us', None), s1)" and us: "us = url # us'"
    by (auto simp: io_bind_def io_return_def split: prod.splits outcome.splits option.splits)
  from Cons.IH [OF rest Cons.prems(2)] j us show ?case
    by (simp add: io_bind_def io_return_def)
qed

lemma Range_records:
  "Range_loop b (\<lambda>option seen. (Returned None, seen @ [option])) vs acc =
     (Returned None, acc @ map (job_options b) vs)"
  by (induction vs arbitrary: acc) (simp_all add: io_return_def io_bind_def)

section \<open>Evaluating the examples\<close>

lemmas run_defs =
  Do_def Range_Destinations_def Do_callback_run do_def getRef_def getTree_def getFileContent_def
  pushCommit_def createPR_def Users_Get_def Git_GetRef_def Git_CreateRef_def Git_UpdateRef_def
  Git_CreateTree_def Repositories_GetCommit_def Git_CreateCommit_def PullRequests_Create_def
  ioutil_ReadFile_def time_Now_def go_result_def io_return_def deref_def io_bind_def request_def
  io_panic_def
  GetName_def GetEmail_def GetHTMLURL_def job_options_def blob_entry_def
  latest_def example_env_def example_user_def main_ref_def example_tree_def example_spec_def
  example_job_def settled_env_def offline_env_def silent_env_def moved_env_def

section \<open>Validation\<close>

lemma validate_loop_fails_iff:
  "validate_loop head vs \<noteq> None \<longleftrightarrow> (\<exists>v \<in> set vs. Base v = '''' \<or> Base v = head)"
  by (induction vs) auto

text \<open>
  C5. Validation fails exactly when the head branch name is empty, or some destination
  has an empty base branch, or some destination's base branch is the head branch; the
  constructor refuses the description in exactly those cases and otherwise builds the
  command around the description as it is.
\<close>

theorem validate_fails_iff:
  "(validate b \<noteq> None \<longleftrightarrow>
      (Head b = '''' \<or> (\<exists>v \<in> set (Destinations b). Base v = '''' \<or> Base v = Head b)))
   \<and> (validate b = None \<longleftrightarrow> NewBatchPullRequestCommand b = (Some \<lparr>options = b\<rparr>, None))
   \<and> (validate b \<noteq> None \<longleftrightarrow> fst (NewBatchPullRequestCommand b) = None)"
proof -
  have "validate b \<noteq> None \<longleftrightarrow>
      (Head b = '''' \<or> (\<exists>v \<in> set (Destinations b). Base v = '''' \<or> Base v = Head b))"
    unfolding validate_def using validate_loop_fails_iff [of "Head b" "Destinations b"]
    by (cases "Head b = ''''") auto
  moreover have "validate b = None \<longleftrightarrow>
      NewBatchPullRequestCommand b = (Some \<lparr>options = b\<rparr>, None)"
    by (simp add: NewBatchPullRequestCommand_def split: option.splits)
  moreover have "validate b \<noteq> None \<longleftrightarrow> fst (NewBatchPullRequestCommand b) = None"
    by (simp add: NewBatchPullRequestCommand_def split: option.splits)
  ultimately show ?thesis by blast
qed


theorem validate_fails_iff_witness:
  "validate example_spec = None
   \<and> NewBatchPullRequestCommand example_spec = (Some \<lparr>options = example_spec\<rparr>, None)
   \<and> validate (example_spec\<lparr>Head := ''main''\<rparr>) \<noteq> None
   \<and> validate (example_spec\<lparr>Head := ''''\<rparr>) \<noteq> None
   \<and> fst (NewBatchPullRequestCommand (example_spec\<lparr>Head := ''main''\<rparr>)) = None"
  using validate_fails_iff [of example_spec]
    validate_fails_iff [of "example_spec\<lparr>Head := ''main''\<rparr>"]
    validate_fails_iff [of "example_spec\<lparr>Head := ''''\<rparr>"]
  by (auto simp: example_spec_def)

section \<open>File arguments\<close>

text \<open>
  C3, as the code has it. An argument with no separator is the local path and the target
  path. An argument with separators is split at every separator: the local path is the
  piece before the first separator and the target path is the piece between the first
  and the second separator, so the whole remainder only when there is no second one;
  pieces after the second separator are dropped, and nothing is validated: whatever the
  argument is, the one thing done is the read of the local path, and the bytes and the
  error returned are those of that read.
\<close>

theorem getFileContent_paths:
  "(CHR '':'' \<notin> set e \<longrightarrow>
      getFileContent env e s =
        (Returned (e,
           (case file_reply env (s @ [ReadFile e]) of
              Inl (op, x) \<Rightarrow> ([], Some (PathError op e x))
            | Inr b \<Rightarrow> (b, None))),
         s @ [ReadFile e]))
   \<and> (CHR '':'' \<notin> set l \<longrightarrow>
      getFileContent env (l @ CHR '':'' # r) s =
        (Returned (takeWhile (\<lambda>c. c \<noteq> CHR '':'') r,
           (case file_reply env (s @ [ReadFile l]) of
              Inl (op, x) \<Rightarrow> ([], Some (PathError op l x))
            | Inr b \<Rightarrow> (b, None))),
         s @ [ReadFile l]))
   \<and> (CHR '':'' \<notin> set l \<and> CHR '':'' \<notin> set r \<longrightarrow>
      getFileContent env (l @ CHR '':'' # r) s =
        (Returned (r,
           (case file_reply env (s @ [ReadFile l]) of
              Inl (op, x) \<Rightarrow> ([], Some (PathError op l x))
            | Inr b \<Rightarrow> (b, None))),
         s @ [ReadFile l]))
   \<and> (CHR '':'' \<notin> set l \<and> CHR '':'' \<notin> set m \<longrightarrow>
      getFileContent env (l @ CHR '':'' # m @ CHR '':'' # rest) s =
        (Returned (m,
           (case file_reply env (s @ [ReadFile l]) of
              Inl (op, x) \<Rightarrow> ([], Some (PathError op l x))
            | Inr b \<Rightarrow> (b, None))),
         s @ [ReadFile l]))"
proof (intro conjI impI)
  assume "CHR '':'' \<notin> set e"
  then have "local_path e = e" and "target_path e = e"
    by (simp_all add: local_path_def target_path_def strings_Split_no_sep)
  then show "getFileContent env e s =
        (Returned (e,
           (case file_reply env (s @ [ReadFile e]) of
              Inl (op, x) \<Rightarrow> ([], Some (PathError op e x))
            | Inr b \<Rightarrow> (b, None))),
         s @ [ReadFile e])"
    using getFileContent_run [of env e s] by (simp split: sum.splits)
next
  assume l: "CHR '':'' \<notin> set l"
  show "getFileContent env (l @ CHR '':'' # r) s =
        (Returned (takeWhile (\<lambda>c. c \<noteq> CHR '':'') r,
           (case file_reply env (s @ [ReadFile l]) of
              Inl (op, x) \<Rightarrow> ([], Some (PathError op l x))
            | Inr b \<Rightarrow> (b, None))),
         s @ [ReadFile l])"
    using getFileContent_run [of env "l @ CHR '':'' # r" s] split_paths [OF l, of r] by (simp split: sum.splits)
next
  assume "CHR '':'' \<notin> set l \<and> CHR '':'' \<notin> set r"
  then have l: "CHR '':'' \<notin> set l" and r: "takeWhile (\<lambda>c. c \<noteq> CHR '':'') r = r"
    by auto
  show "getFileContent env (l @ CHR '':'' # r) s =
        (Returned (r,
           (case file_reply env (s @ [ReadFile l]) of
              Inl (op, x) \<Rightarrow> ([], Some (PathError op l x))
            | Inr b \<Rightarrow> (b, None))),
         s @ [ReadFile l])"
    using getFileContent_run [of env "l @ CHR '':'' # r" s] split_paths [OF l, of r] r by (simp split: sum.splits)
next
  assume "CHR '':'' \<notin> set l \<and> CHR '':'' \<notin> set m"
  then have l: "CHR '':'' \<notin> set l"
    and m: "takeWhile (\<lambda>c. c \<noteq> CHR '':'') (m @ CHR '':'' # rest) = m"
    by (auto simp: takeWhile_tail)
  show "getFileContent env (l @ CHR '':'' # m @ CHR '':'' # rest) s =
        (Returned (m,
           (case file_reply env (s @ [ReadFile l]) of
              Inl (op, x) \<Rightarrow> ([], Some (PathError op l x))
            | Inr b \<Rightarrow> (b, None))),
         s @ [ReadFile l])"
    using getFileContent_run [of env "l @ CHR '':'' # m @ CHR '':'' # rest" s]
      split_paths [OF l, of "m @ CHR '':'' # rest"] m by (simp split: sum.splits)
qed

theorem getFileContent_paths_witness:
  "CHR '':'' \<notin> set ''a.txt''
   \<and> getFileContent example_env ''a.txt'' [] =
       (Returned (''a.txt'', [],
          Some (PathError ''open'' ''a.txt'' (ErrorString ''no such file or directory''))),
        [ReadFile ''a.txt''])
   \<and> CHR '':'' \<notin> set ''sub/b.txt''
   \<and> getFileContent example_env ''a.txt:sub/b.txt'' [] =
       (Returned (''sub/b.txt'', [],
          Some (PathError ''open'' ''a.txt'' (ErrorString ''no such file or directory''))),
        [ReadFile ''a.txt''])
   \<and> CHR '':'' \<notin> set ''README.md'' \<and> CHR '':'' \<notin> set ''docs/README.md''
   \<and> getFileContent example_env ''README.md:docs/README.md:old:older'' [] =
       (Returned (''docs/README.md'', ''hello'', None), [ReadFile ''README.md''])
   \<and> getFileContent example_env ''README.md:b:c'' [] =
       (Returned (''b'', ''hello'', None), [ReadFile ''README.md''])"
proof -
  have missing: "file_reply example_env ([] @ [ReadFile ''a.txt'']) =
      Inl (''open'', ErrorString ''no such file or directory'')"
    by (simp add: example_env_def latest_def)
  have readme: "file_reply example_env ([] @ [ReadFile ''README.md'']) = Inr ''hello''"
    by (simp add: example_env_def latest_def)
  have no_sep: "CHR '':'' \<notin> set ''a.txt''" "CHR '':'' \<notin> set ''sub/b.txt''"
    "CHR '':'' \<notin> set ''README.md''" "CHR '':'' \<notin> set ''docs/README.md''"
    by simp_all
  from getFileContent_paths [of "''a.txt''" example_env "[]" "''a.txt''" "''sub/b.txt''"]
    no_sep missing
  have one: "getFileContent example_env ''a.txt'' [] =
       (Returned (''a.txt'', [],
          Some (PathError ''open'' ''a.txt'' (ErrorString ''no such file or directory''))),
        [ReadFile ''a.txt''])"
    and two: "getFileContent example_env ''a.txt:sub/b.txt'' [] =
       (Returned (''sub/b.txt'', [],
          Some (PathError ''open'' ''a.txt'' (ErrorString ''no such file or directory''))),
        [ReadFile ''a.txt''])"
    by simp_all
  from getFileContent_paths [of _ example_env "[]" "''README.md''" _ "''docs/README.md''"
      "''old:older''"] no_sep readme
  have three: "getFileContent example_env ''README.md:docs/README.md:old:older'' [] =
       (Returned (''docs/README.md'', ''hello'', None), [ReadFile ''README.md''])"
    by simp
  from getFileContent_paths [of _ example_env "[]" "''README.md''" "''b:c''"] no_sep readme
  have four: "getFileContent example_env ''README.md:b:c'' [] =
       (Returned (''b'', ''hello'', None), [ReadFile ''README.md''])"
    by simp
  from no_sep one two three four show ?thesis
    by blast
qed

text \<open>
  C3 with the target read as the whole remainder after the first separator does not hold
  of the code when a second separator follows: the argument \<open>README.md:b:c\<close> reads
  \<open>README.md\<close> and has the target \<open>b\<close>, not \<open>b:c\<close>, and the argument \<open>a:b:c\<close> reads
  \<open>a\<close> (a file that does not exist here) with the target \<open>b\<close>.
\<close>

theorem getFileContent_remainder_counterexample:
  "getFileContent example_env ''README.md:b:c'' [] =
     (Returned (''b'', ''hello'', None), [ReadFile ''README.md''])
   \<and> fst (getFileContent example_env ''README.md:b:c'' []) \<noteq> Returned (''b:c'', ''hello'', None)
   \<and> getFileContent example_env ''a:b:c'' [] =
     (Returned (''b'', [], Some (PathError ''open'' ''a'' (ErrorString ''no such file or directory''))),
      [ReadFile ''a''])"
  by (simp add: run_defs)

section \<open>The reference resolver\<close>

text \<open>
  C2. \<open>getRef\<close> first looks the commit branch up. If that lookup gives no error, its
  reference is returned as it is and nothing else is requested: no reference is created,
  and resolving the same existing branch again gives the same reference with one more
  lookup and still no creation. If the lookup gives an error, whatever the error is, the
  base branch is looked up next. If that fails too, the result is an error that wraps the
  second one, and nothing is created. Otherwise one creation is requested, of a reference
  with the commit branch's name at the object hash of the base branch's reference, and
  what the creation answers is returned. (The base reference is taken to carry its
  object, as a reference of the service does; \<open>getRef_base_malformed\<close> says what happens
  without it.)
\<close>

theorem getRef_resolves_or_creates:
  "(reference_reply env (s @ [head_lookup opts]) = Inr ref \<longrightarrow>
      getRef env opts s = (Returned (ref, None), s @ [head_lookup opts]))
   \<and> (reference_reply env (s @ [head_lookup opts]) = Inr ref \<and>
      reference_reply env (s @ [head_lookup opts, head_lookup opts]) = Inr ref \<longrightarrow>
      io_bind (getRef env opts) (\<lambda>first. getRef env opts) s =
        (Returned (ref, None), s @ [head_lookup opts, head_lookup opts]))
   \<and> (reference_reply env (s @ [head_lookup opts]) = Inl e \<and>
      reference_reply env (s @ [head_lookup opts, base_lookup opts]) = Inl e' \<longrightarrow>
      getRef env opts s =
        (Returned (None, Some (WrapError ''unable to get base ref: '' e')),
         s @ [head_lookup opts, base_lookup opts]))
   \<and> (reference_reply env (s @ [head_lookup opts]) = Inl e \<and>
      reference_reply env (s @ [head_lookup opts, base_lookup opts]) = Inr (Some base) \<and>
      Reference_Object base = Some obj \<longrightarrow>
      getRef env opts s =
        (Returned (go_result (reference_reply env
           (s @ [head_lookup opts, base_lookup opts, branch_creation opts (GitObject_SHA obj)]))),
         s @ [head_lookup opts, base_lookup opts, branch_creation opts (GitObject_SHA obj)]))"
proof (intro conjI impI)
  assume "reference_reply env (s @ [head_lookup opts]) = Inr ref"
  then show "getRef env opts s = (Returned (ref, None), s @ [head_lookup opts])"
    unfolding head_lookup_def by (rule getRef_found)
next
  assume "reference_reply env (s @ [head_lookup opts]) = Inr ref \<and>
      reference_reply env (s @ [head_lookup opts, head_lookup opts]) = Inr ref"
  then have first: "getRef env opts s = (Returned (ref, None), s @ [head_lookup opts])"
    and second: "getRef env opts (s @ [head_lookup opts]) =
      (Returned (ref, None), (s @ [head_lookup opts]) @ [head_lookup opts])"
    unfolding head_lookup_def by (simp_all add: getRef_found)
  then show "io_bind (getRef env opts) (\<lambda>first. getRef env opts) s =
        (Returned (ref, None), s @ [head_lookup opts, head_lookup opts])"
    by (simp add: io_bind_def)
next
  assume "reference_reply env (s @ [head_lookup opts]) = Inl e \<and>
      reference_reply env (s @ [head_lookup opts, base_lookup opts]) = Inl e'"
  then show "getRef env opts s =
        (Returned (None, Some (WrapError ''unable to get base ref: '' e')),
         s @ [head_lookup opts, base_lookup opts])"
    unfolding head_lookup_def base_lookup_def by (simp add: getRef_no_base)
next
  assume "reference_reply env (s @ [head_lookup opts]) = Inl e \<and>
      reference_reply env (s @ [head_lookup opts, base_lookup opts]) = Inr (Some base) \<and>
      Reference_Object base = Some obj"
  then show "getRef env opts s =
        (Returned (go_result (reference_reply env
           (s @ [head_lookup opts, base_lookup opts, branch_creation opts (GitObject_SHA obj)]))),
         s @ [head_lookup opts, base_lookup opts, branch_creation opts (GitObject_SHA obj)])"
    unfolding head_lookup_def base_lookup_def branch_creation_def
    by (simp add: getRef_created [where e = e and base = base and obj = obj])
qed

theorem getRef_resolves_or_creates_witness:
  "reference_reply settled_env ([] @ [head_lookup example_job]) = Inr (Some main_ref)
   \<and> getRef settled_env example_job [] = (Returned (Some main_ref, None), [head_lookup example_job])
   \<and> io_bind (getRef settled_env example_job) (\<lambda>first. getRef settled_env example_job) [] =
       (Returned (Some main_ref, None), [head_lookup example_job, head_lookup example_job])
   \<and> reference_reply offline_env ([] @ [head_lookup example_job]) = Inl (ErrorString ''timeout'')
   \<and> getRef offline_env example_job [] =
       (Returned (None, Some (WrapError ''unable to get base ref: '' (ErrorString ''timeout''))),
        [head_lookup example_job, base_lookup example_job])
   \<and> reference_reply example_env ([] @ [head_lookup example_job]) = Inl (ErrorString ''404 Not Found'')
   \<and> reference_reply example_env ([] @ [head_lookup example_job, base_lookup example_job]) =
       Inr (Some main_ref)
   \<and> getRef example_env example_job [] =
       (Returned (Some (new_branch example_job (Some ''c0'')), None),
        [head_lookup example_job, base_lookup example_job,
         branch_creation example_job (Some ''c0'')])"
proof -
  have found: "reference_reply settled_env ([] @ [head_lookup example_job]) = Inr (Some main_ref)"
    "reference_reply settled_env ([] @ [head_lookup example_job, head_lookup example_job]) =
       Inr (Some main_ref)"
    by (simp_all add: settled_env_def)
  have offline: "reference_reply offline_env ([] @ [head_lookup example_job]) =
      Inl (ErrorString ''timeout'')"
    "reference_reply offline_env ([] @ [head_lookup example_job, base_lookup example_job]) =
      Inl (ErrorString ''timeout'')"
    by (simp_all add: offline_env_def)
  have missing: "reference_reply example_env ([] @ [head_lookup example_job]) =
      Inl (ErrorString ''404 Not Found'')"
    by (simp add: example_env_def latest_def head_lookup_def example_job_def job_options_def
        example_spec_def)
  have base: "reference_reply example_env ([] @ [head_lookup example_job, base_lookup example_job]) =
      Inr (Some main_ref)"
    by (simp add: example_env_def latest_def base_lookup_def example_job_def job_options_def)
  have obj: "Reference_Object main_ref =
      Some \<lparr>GitObject_Type = Some ''commit'', GitObject_SHA = Some ''c0'', GitObject_URL = None\<rparr>"
    by (simp add: main_ref_def)
  have created: "go_result (reference_reply example_env
      ([] @ [head_lookup example_job, base_lookup example_job,
             branch_creation example_job (Some ''c0'')])) =
      (Some (new_branch example_job (Some ''c0'')), None)"
    by (simp add: example_env_def latest_def branch_creation_def go_result_def)
  note thm1 = getRef_resolves_or_creates [of settled_env "[]" example_job "Some main_ref"]
  note thm2 = getRef_resolves_or_creates [of offline_env "[]" example_job _
      "ErrorString ''timeout''" "ErrorString ''timeout''"]
  note thm3 = getRef_resolves_or_creates [of example_env "[]" example_job _
      "ErrorString ''404 Not Found''" _ main_ref
      "\<lparr>GitObject_Type = Some ''commit'', GitObject_SHA = Some ''c0'', GitObject_URL = None\<rparr>"]
  from thm1 found have "getRef settled_env example_job [] =
      (Returned (Some main_ref, None), [head_lookup example_job])"
    and "io_bind (getRef settled_env example_job) (\<lambda>first. getRef settled_env example_job) [] =
       (Returned (Some main_ref, None), [head_lookup example_job, head_lookup example_job])"
    by simp_all
  moreover from thm2 offline have "getRef offline_env example_job [] =
       (Returned (None, Some (WrapError ''unable to get base ref: '' (ErrorString ''timeout''))),
        [head_lookup example_job, base_lookup example_job])"
    by simp
  moreover from thm3 missing base obj created have "getRef example_env example_job [] =
       (Returned (Some (new_branch example_job (Some ''c0'')), None),
        [head_lookup example_job, base_lookup example_job,
         branch_creation example_job (Some ''c0'')])"
    by simp
  ultimately show ?thesis
    using found(1) offline(1) missing base by simp
qed

section \<open>The steps of a job\<close>

text \<open>
  C7. A job resolves the reference, builds the tree, publishes the commit and opens the
  pull request, in that order: the requests it appends to the log are ordered by their
  step, and each of the four functions makes requests of its own step only. When a step
  fails, the job returns that step's error (wrapped with the step's message for the tree
  and the commit) and an empty URL, and the log is left as the failing step left it, so
  no request of a later step is made. A reference lookup that gives neither a reference
  nor an error ends the job in the same way. When the first three steps succeed, the
  job's result is that of opening the pull request.
\<close>

theorem do_runs_steps_in_order:
  "(\<exists>new. snd (do env opts s) = s @ new \<and> sorted (map step_of new) \<and>
      list_all (\<lambda>c. 1 \<le> step_of c \<and> step_of c \<le> 4) new)
   \<and> (\<exists>new. snd (getRef env opts s) = s @ new \<and> list_all (\<lambda>c. step_of c = 1) new)
   \<and> (\<exists>new. snd (getTree env opts ref s) = s @ new \<and> list_all (\<lambda>c. step_of c = 2) new)
   \<and> (\<exists>new. snd (pushCommit env opts ref tree s) = s @ new \<and> list_all (\<lambda>c. step_of c = 3) new)
   \<and> (\<exists>new. snd (createPR env opts s) = s @ new \<and> list_all (\<lambda>c. step_of c = 4) new)
   \<and> (getRef env opts s = (Returned (r0, Some e), s1) \<longrightarrow>
        do env opts s = (Returned ('''', Some e), s1))
   \<and> (getRef env opts s = (Returned (None, None), s1) \<longrightarrow>
        do env opts s =
          (Returned ('''', Some (ErrorString ''no error where returned but the reference is nil'')),
           s1))
   \<and> (getRef env opts s = (Returned (Some r, None), s1) \<and>
      getTree env opts (Some r) s1 = (Returned (t0, Some e), s2) \<longrightarrow>
        do env opts s =
          (Returned ('''',
             Some (WrapError ''unable to create the tree based on the provided files: '' e)), s2))
   \<and> (getRef env opts s = (Returned (Some r, None), s1) \<and>
      getTree env opts (Some r) s1 = (Returned (t, None), s2) \<and>
      pushCommit env opts (Some r) t s2 = (Returned (Some e), s3) \<longrightarrow>
        do env opts s = (Returned ('''', Some (WrapError ''unable to create the commit: '' e)), s3))
   \<and> (getRef env opts s = (Returned (Some r, None), s1) \<and>
      getTree env opts (Some r) s1 = (Returned (t, None), s2) \<and>
      pushCommit env opts (Some r) t s2 = (Returned None, s3) \<longrightarrow>
        do env opts s = createPR env opts s3)"
proof -
  have order: "\<exists>new. snd (do env opts s) = s @ new \<and> sorted (map step_of new) \<and>
      list_all (\<lambda>c. 1 \<le> step_of c \<and> step_of c \<le> 4) new"
    using do_steps [of env opts] unfolding emits_steps_def by blast
  have one: "\<exists>new. snd (getRef env opts s) = s @ new \<and> list_all (\<lambda>c. step_of c = 1) new"
    using getRef_step [of env opts] unfolding emits_def by blast
  have two: "\<exists>new. snd (getTree env opts ref s) = s @ new \<and> list_all (\<lambda>c. step_of c = 2) new"
    using getTree_step [of env opts ref] unfolding emits_def by blast
  have three: "\<exists>new. snd (pushCommit env opts ref tree s) = s @ new \<and>
      list_all (\<lambda>c. step_of c = 3) new"
    using pushCommit_step [of env opts ref tree] unfolding emits_def by blast
  have four: "\<exists>new. snd (createPR env opts s) = s @ new \<and> list_all (\<lambda>c. step_of c = 4) new"
    using createPR_step [of env opts] unfolding emits_def by blast
  show ?thesis
    by (intro conjI impI order one two three four)
      (auto simp: do_ref_failed do_ref_nil do_tree_failed do_commit_failed do_all_steps)
qed

theorem do_runs_steps_in_order_witness:
  "getRef offline_env example_job [] =
     (Returned (None, Some (WrapError ''unable to get base ref: '' (ErrorString ''timeout''))),
      [head_lookup example_job, base_lookup example_job])
   \<and> do offline_env example_job [] =
     (Returned ('''', Some (WrapError ''unable to get base ref: '' (ErrorString ''timeout''))),
      [head_lookup example_job, base_lookup example_job])
   \<and> getRef silent_env example_job [] = (Returned (None, None), [head_lookup example_job])
   \<and> do silent_env example_job [] =
     (Returned ('''', Some (ErrorString ''no error where returned but the reference is nil'')),
      [head_lookup example_job])
   \<and> getRef settled_env (example_job\<lparr>Files := [''missing.txt'']\<rparr>) [] =
     (Returned (Some main_ref, None), [head_lookup example_job])
   \<and> getTree settled_env (example_job\<lparr>Files := [''missing.txt'']\<rparr>) (Some main_ref)
       [head_lookup example_job] =
     (Returned (None,
        Some (PathError ''open'' ''missing.txt'' (ErrorString ''no such file or directory''))),
      [head_lookup example_job, ReadFile ''missing.txt''])
   \<and> do settled_env (example_job\<lparr>Files := [''missing.txt'']\<rparr>) [] =
     (Returned ('''',
        Some (WrapError ''unable to create the tree based on the provided files: ''
          (PathError ''open'' ''missing.txt'' (ErrorString ''no such file or directory'')))),
      [head_lookup example_job, ReadFile ''missing.txt''])
   \<and> fst (pushCommit moved_env example_job (Some main_ref) (Some example_tree)
        (snd (getTree moved_env example_job (Some main_ref) (snd (getRef moved_env example_job []))))) =
     Returned (Some (ErrorString ''422 Update is not a fast forward''))
   \<and> fst (do moved_env example_job []) =
     Returned ('''', Some (WrapError ''unable to create the commit: ''
       (ErrorString ''422 Update is not a fast forward'')))
   \<and> list_all (\<lambda>c. step_of c \<noteq> 4) (snd (do moved_env example_job []))
   \<and> fst (do example_env example_job []) =
     Returned (''https://github.com/mercadolibre/r1/pull/1'', None)
   \<and> map step_of (snd (do example_env example_job [])) = [1, 1, 1, 2, 2, 3, 3, 3, 3, 4]"
proof -
  let ?missing = "example_job\<lparr>Files := [''missing.txt'']\<rparr>"
  have a: "getRef offline_env example_job [] =
     (Returned (None, Some (WrapError ''unable to get base ref: '' (ErrorString ''timeout''))),
      [head_lookup example_job, base_lookup example_job])"
    by (simp add: run_defs head_lookup_def base_lookup_def)
  have b: "getRef silent_env example_job [] = (Returned (None, None), [head_lookup example_job])"
    by (simp add: run_defs head_lookup_def)
  have c1: "getRef settled_env ?missing [] =
     (Returned (Some main_ref, None), [head_lookup example_job])"
    by (simp add: run_defs head_lookup_def)
  have c2: "getTree settled_env ?missing (Some main_ref) [head_lookup example_job] =
     (Returned (None,
        Some (PathError ''open'' ''missing.txt'' (ErrorString ''no such file or directory''))),
      [head_lookup example_job, ReadFile ''missing.txt''])"
    by (simp add: run_defs head_lookup_def)
  let ?s1 = "snd (getRef moved_env example_job [])"
  let ?s2 = "snd (getTree moved_env example_job (Some main_ref) ?s1)"
  let ?s3 = "snd (pushCommit moved_env example_job (Some main_ref) (Some example_tree) ?s2)"
  have d1: "getRef moved_env example_job [] =
      (Returned (Some (new_branch example_job (Some ''c0'')), None), ?s1)"
    by (simp add: run_defs new_branch_def)
  have d2: "getTree moved_env example_job (Some (new_branch example_job (Some ''c0''))) ?s1 =
      (Returned (Some example_tree, None),
       snd (getTree moved_env example_job (Some (new_branch example_job (Some ''c0''))) ?s1))"
    by (simp add: run_defs new_branch_def)
  have d3: "pushCommit moved_env example_job (Some (new_branch example_job (Some ''c0'')))
        (Some example_tree)
        (snd (getTree moved_env example_job (Some (new_branch example_job (Some ''c0''))) ?s1)) =
      (Returned (Some (ErrorString ''422 Update is not a fast forward'')),
       snd (pushCommit moved_env example_job (Some (new_branch example_job (Some ''c0'')))
         (Some example_tree)
         (snd (getTree moved_env example_job (Some (new_branch example_job (Some ''c0''))) ?s1))))"
    by (simp add: run_defs new_branch_def)
  note inst = do_runs_steps_in_order
  from inst [of offline_env example_job "[]"] a
  have "do offline_env example_job [] =
     (Returned ('''', Some (WrapError ''unable to get base ref: '' (ErrorString ''timeout''))),
      [head_lookup example_job, base_lookup example_job])"
    by simp
  moreover from inst [of silent_env example_job "[]"] b
  have "do silent_env example_job [] =
     (Returned ('''', Some (ErrorString ''no error where returned but the reference is nil'')),
      [head_lookup example_job])"
    by simp
  moreover from inst [of settled_env ?missing "[]"] c1 c2
  have "do settled_env ?missing [] =
     (Returned ('''',
        Some (WrapError ''unable to create the tree based on the provided files: ''
          (PathError ''open'' ''missing.txt'' (ErrorString ''no such file or directory'')))),
      [head_lookup example_job, ReadFile ''missing.txt''])"
    by simp
  moreover from inst [of moved_env example_job "[]"] d1 d2 d3
  have "fst (do moved_env example_job []) =
     Returned ('''', Some (WrapError ''unable to create the commit: ''
       (ErrorString ''422 Update is not a fast forward'')))"
    by simp
  moreover have "fst (pushCommit moved_env example_job (Some main_ref) (Some example_tree) ?s2) =
     Returned (Some (ErrorString ''422 Update is not a fast forward''))"
    by (simp add: run_defs)
  moreover have "list_all (\<lambda>c. step_of c \<noteq> 4) (snd (do moved_env example_job []))"
    by (simp add: run_defs)
  moreover have "fst (do example_env example_job []) =
     Returned (''https://github.com/mercadolibre/r1/pull/1'', None)"
    by (simp add: run_defs)
  moreover have "map step_of (snd (do example_env example_job [])) = [1, 1, 1, 2, 2, 3, 3, 3, 3, 4]"
    by (simp add: run_defs)
  ultimately show ?thesis
    using a b c1 c2 by simp
qed

section \<open>The commit publisher\<close>

text \<open>
  C4. The update of the reference is never forced: no request that \<open>pushCommit\<close>, a job
  or a whole batch appends to the log is an update with \<open>force\<close> set. The update is the
  last request of \<open>pushCommit\<close>, and when the service answers it with an error, as it
  does for a reference that has moved, \<open>pushCommit\<close> returns that error.
\<close>

theorem update_is_never_forced:
  "(\<exists>new. snd (pushCommit env opts ref tree s) = s @ new \<and> list_all (\<lambda>c. \<not> forced c) new)
   \<and> (\<exists>new. snd (do env opts s) = s @ new \<and> list_all (\<lambda>c. \<not> forced c) new)
   \<and> (\<exists>new. snd (Do env f s) = s @ new \<and> list_all (\<lambda>c. \<not> forced c) new)
   \<and> (pushCommit env opts ref tree s = (result, s @ new @ [c]) \<and> is_update c \<and>
      reference_reply env (s @ new @ [c]) = Inl e \<longrightarrow> result = Returned (Some e))"
proof -
  have push: "\<exists>new. snd (pushCommit env opts ref tree s) = s @ new \<and>
      list_all (\<lambda>c. \<not> forced c) new"
    using pushCommit_not_forced [of env opts ref tree] unfolding emits_def by blast
  have job: "\<exists>new. snd (do env opts s) = s @ new \<and> list_all (\<lambda>c. \<not> forced c) new"
  proof -
    have "emits (\<lambda>c. \<not> forced c) (do env opts)"
      by (rule emits_mono [OF emits_do]) (rule job_call_not_forced)
    then show ?thesis unfolding emits_def by blast
  qed
  obtain rest where rest: "snd (Do env f s) = s @ UsersGet '''' # rest" "list_all batch_call rest"
    using Do_log [of env f s] by blast
  from rest(2) have "list_all (\<lambda>c. \<not> forced c) (UsersGet '''' # rest)"
    by (simp add: list_all_iff batch_call_def)
  with rest(1) have batch: "\<exists>new. snd (Do env f s) = s @ new \<and> list_all (\<lambda>c. \<not> forced c) new"
    by blast
  have rejected: "result = Returned (Some e)"
    if "pushCommit env opts ref tree s = (result, s @ new @ [c]) \<and> is_update c \<and>
      reference_reply env (s @ new @ [c]) = Inl e"
    using that pushCommit_update_rejected [of env opts ref tree s result "s @ new @ [c]" new c e]
    by simp
  from push job batch rejected show ?thesis by blast
qed

theorem update_is_never_forced_witness:
  "pushCommit moved_env example_job (Some main_ref) (Some example_tree) [] =
     (Returned (Some (ErrorString ''422 Update is not a fast forward'')),
      [] @ [RepositoriesGetCommit ''mercadolibre'' ''r1'' ''c0'', TimeNow,
            GitCreateCommit ''mercadolibre'' ''r1''
              (Commit None
                 (Some \<lparr>CommitAuthor_Date = Some 2, CommitAuthor_Name = Some '''',
                        CommitAuthor_Email = Some ''''\<rparr>)
                 None (Some ''Automatic Large Scale Change'') (Some example_tree)
                 [Commit (Some ''c0'') None None None None []])] @
        [GitUpdateRef ''mercadolibre'' ''r1''
           (main_ref\<lparr>Reference_Object :=
              Some \<lparr>GitObject_Type = Some ''commit'', GitObject_SHA = Some ''c1'',
                    GitObject_URL = None\<rparr>\<rparr>) False])
   \<and> list_all (\<lambda>c. \<not> forced c) (snd (Do moved_env \<lparr>options = example_spec\<rparr> []))"
proof -
  let ?new = "[RepositoriesGetCommit ''mercadolibre'' ''r1'' ''c0'', TimeNow,
            GitCreateCommit ''mercadolibre'' ''r1''
              (Commit None
                 (Some \<lparr>CommitAuthor_Date = Some 2, CommitAuthor_Name = Some '''',
                        CommitAuthor_Email = Some ''''\<rparr>)
                 None (Some ''Automatic Large Scale Change'') (Some example_tree)
                 [Commit (Some ''c0'') None None None None []])]"
  let ?c = "GitUpdateRef ''mercadolibre'' ''r1''
           (main_ref\<lparr>Reference_Object :=
              Some \<lparr>GitObject_Type = Some ''commit'', GitObject_SHA = Some ''c1'',
                    GitObject_URL = None\<rparr>\<rparr>) False"
  let ?r = "fst (pushCommit moved_env example_job (Some main_ref) (Some example_tree) [])"
  have run: "pushCommit moved_env example_job (Some main_ref) (Some example_tree) [] =
      (?r, [] @ ?new @ [?c])"
    by (simp add: run_defs)
  have update: "is_update ?c"
    by simp
  have reply: "reference_reply moved_env ([] @ ?new @ [?c]) =
      Inl (ErrorString ''422 Update is not a fast forward'')"
    by (simp add: moved_env_def latest_def)
  note inst = update_is_never_forced [of moved_env example_job "Some main_ref" "Some example_tree"
      "[]" "\<lparr>options = example_spec\<rparr>" ?r ?new ?c "ErrorString ''422 Update is not a fast forward''"]
  from inst run update reply
  have "?r = Returned (Some (ErrorString ''422 Update is not a fast forward''))"
    by blast
  with run have "pushCommit moved_env example_job (Some main_ref) (Some example_tree) [] =
     (Returned (Some (ErrorString ''422 Update is not a fast forward'')), [] @ ?new @ [?c])"
    by simp
  moreover from inst have "list_all (\<lambda>c. \<not> forced c) (snd (Do moved_env \<lparr>options = example_spec\<rparr> []))"
    by auto
  ultimately show ?thesis by blast
qed

section \<open>The tree builder\<close>

lemma paths_no_separator:
  "CHR '':'' \<notin> set a \<Longrightarrow> local_path a = a \<and> target_path a = a"
  by (simp add: local_path_def target_path_def strings_Split_no_sep)

text \<open>
  C8. \<open>getTree\<close> reads the local file of each file argument, in the order of the list.
  When every read succeeds, it then requests one tree, on the object hash of the given
  reference, whose entries are one blob per file argument in the same order: the path is
  the argument's target path, the type is \<open>blob\<close>, the mode is \<open>100644\<close>, the content is
  what was read, and no other field is set; the answer to that request is the result.
  When a read fails, the files after it are not read, no tree is requested, and the
  error is the path error of that read, which carries the local path. (The reference is
  taken to carry its object and hash. The local and the target path are the pieces that
  \<open>getFileContent\<close> takes from the argument.)
\<close>

theorem getTree_builds_blobs:
  "(Reference_Object r = Some obj \<and> GitObject_SHA obj = Some sha \<and>
      length contents = length (Files opts) \<and>
      (\<forall>i < length (Files opts).
         file_reply env (s @ reads (take (Suc i) (Files opts))) = Inr (contents ! i)) \<longrightarrow>
      getTree env opts (Some r) s =
        (Returned (go_result (tree_reply env
           (s @ reads (Files opts) @
              [GitCreateTree (SourceOwner opts) (SourceRepo opts) sha
                 (map2 (\<lambda>a c. blob_entry (target_path a) c) (Files opts) contents)]))),
         s @ reads (Files opts) @
           [GitCreateTree (SourceOwner opts) (SourceRepo opts) sha
              (map2 (\<lambda>a c. blob_entry (target_path a) c) (Files opts) contents)]))
   \<and> (i < length (Files opts) \<and>
      (\<forall>j < i. \<not> isl (file_reply env (s @ reads (take (Suc j) (Files opts))))) \<and>
      file_reply env (s @ reads (take (Suc i) (Files opts))) = Inl (op, e) \<longrightarrow>
      getTree env opts ref s =
        (Returned (None, Some (PathError op (local_path (Files opts ! i)) e)),
         s @ reads (take (Suc i) (Files opts))))
   \<and> blob_entry path content =
       \<lparr>TreeEntry_SHA = None, TreeEntry_Path = Some path, TreeEntry_Mode = Some ''100644'',
        TreeEntry_Type = Some ''blob'', TreeEntry_Size = None, TreeEntry_Content = Some content,
        TreeEntry_URL = None\<rparr>
   \<and> reads fileArgs = map (\<lambda>a. ReadFile (local_path a)) fileArgs
   \<and> (CHR '':'' \<notin> set a \<longrightarrow> local_path a = a \<and> target_path a = a)
   \<and> (CHR '':'' \<notin> set l \<longrightarrow>
        local_path (l @ CHR '':'' # rest) = l \<and>
        target_path (l @ CHR '':'' # rest) = takeWhile (\<lambda>c. c \<noteq> CHR '':'') rest)"
proof (intro conjI impI)
  assume "Reference_Object r = Some obj \<and> GitObject_SHA obj = Some sha \<and>
      length contents = length (Files opts) \<and>
      (\<forall>i < length (Files opts).
         file_reply env (s @ reads (take (Suc i) (Files opts))) = Inr (contents ! i))"
  then show "getTree env opts (Some r) s =
        (Returned (go_result (tree_reply env
           (s @ reads (Files opts) @
              [GitCreateTree (SourceOwner opts) (SourceRepo opts) sha
                 (map2 (\<lambda>a c. blob_entry (target_path a) c) (Files opts) contents)]))),
         s @ reads (Files opts) @
           [GitCreateTree (SourceOwner opts) (SourceRepo opts) sha
              (map2 (\<lambda>a c. blob_entry (target_path a) c) (Files opts) contents)])"
    using getTree_built [of r obj sha contents opts env s] by blast
next
  assume "i < length (Files opts) \<and>
      (\<forall>j < i. \<not> isl (file_reply env (s @ reads (take (Suc j) (Files opts))))) \<and>
      file_reply env (s @ reads (take (Suc i) (Files opts))) = Inl (op, e)"
  then show "getTree env opts ref s =
        (Returned (None, Some (PathError op (local_path (Files opts ! i)) e)),
         s @ reads (take (Suc i) (Files opts)))"
    using getTree_unreadable [of i opts env s op e ref] by blast
next
  show "blob_entry path content =
       \<lparr>TreeEntry_SHA = None, TreeEntry_Path = Some path, TreeEntry_Mode = Some ''100644'',
        TreeEntry_Type = Some ''blob'', TreeEntry_Size = None, TreeEntry_Content = Some content,
        TreeEntry_URL = None\<rparr>"
    by (simp add: blob_entry_def)
next
  show "reads fileArgs = map (\<lambda>a. ReadFile (local_path a)) fileArgs"
    by (simp add: reads_def)
next
  assume "CHR '':'' \<notin> set a"
  then show "local_path a = a" and "target_path a = a"
    by (simp_all add: paths_no_separator)
next
  assume "CHR '':'' \<notin> set l"
  then show "local_path (l @ CHR '':'' # rest) = l"
    and "target_path (l @ CHR '':'' # rest) = takeWhile (\<lambda>c. c \<noteq> CHR '':'') rest"
    by (simp_all add: split_paths)
qed

theorem getTree_builds_blobs_witness:
  "getTree example_env (example_job\<lparr>Files := [''README.md'', ''README.md:docs/README.md'']\<rparr>)
     (Some main_ref) [] =
     (Returned (Some example_tree, None),
      [ReadFile ''README.md'', ReadFile ''README.md'',
       GitCreateTree ''mercadolibre'' ''r1'' ''c0''
         [blob_entry ''README.md'' ''hello'', blob_entry ''docs/README.md'' ''hello'']])
   \<and> getTree example_env
       (example_job\<lparr>Files := [''README.md'', ''missing.txt:docs/x'', ''README.md'']\<rparr>)
       (Some main_ref) [] =
     (Returned (None,
        Some (PathError ''open'' ''missing.txt'' (ErrorString ''no such file or directory''))),
      [ReadFile ''README.md'', ReadFile ''missing.txt''])"
proof -
  let ?ok = "example_job\<lparr>Files := [''README.md'', ''README.md:docs/README.md'']\<rparr>"
  let ?bad = "example_job\<lparr>Files := [''README.md'', ''missing.txt:docs/x'', ''README.md'']\<rparr>"
  let ?obj = "\<lparr>GitObject_Type = Some ''commit'', GitObject_SHA = Some ''c0'', GitObject_URL = None\<rparr>"
  have paths: "local_path ''README.md'' = ''README.md''" "target_path ''README.md'' = ''README.md''"
    "local_path ''README.md:docs/README.md'' = ''README.md''"
    "target_path ''README.md:docs/README.md'' = ''docs/README.md''"
    "local_path ''missing.txt:docs/x'' = ''missing.txt''"
    by (simp_all add: local_path_def target_path_def)
  have ref: "Reference_Object main_ref = Some ?obj" "GitObject_SHA ?obj = Some ''c0''"
    by (simp_all add: main_ref_def)
  have len: "length [''hello'', ''hello''] = length (Files ?ok)"
    by simp
  have all_read: "\<forall>i < length (Files ?ok).
      file_reply example_env ([] @ reads (take (Suc i) (Files ?ok))) = Inr ([''hello'', ''hello''] ! i)"
  proof (intro allI impI)
    fix i assume "i < length (Files ?ok)"
    then have "i = 0 \<or> i = 1" by auto
    then show "file_reply example_env ([] @ reads (take (Suc i) (Files ?ok))) =
        Inr ([''hello'', ''hello''] ! i)"
      by (auto simp: reads_def paths example_env_def latest_def)
  qed
  have index: "(1::nat) < length (Files ?bad)"
    by simp
  have before: "\<forall>j < (1::nat). \<not> isl (file_reply example_env ([] @ reads (take (Suc j) (Files ?bad))))"
    by (simp add: reads_def paths example_env_def latest_def)
  have failing: "file_reply example_env ([] @ reads (take (Suc 1) (Files ?bad))) =
      Inl (''open'', ErrorString ''no such file or directory'')"
    by (simp add: reads_def paths example_env_def latest_def)
  note inst1 = getTree_builds_blobs [of main_ref ?obj "''c0''" "[''hello'', ''hello'']" ?ok
      example_env "[]"]
  note inst2 = getTree_builds_blobs [of _ _ _ _ ?bad example_env "[]" 1 "''open''"
      "ErrorString ''no such file or directory''" "Some main_ref"]
  from inst1 ref len all_read
  have "getTree example_env ?ok (Some main_ref) [] =
      (Returned (go_result (tree_reply example_env
         ([] @ reads (Files ?ok) @
            [GitCreateTree (SourceOwner ?ok) (SourceRepo ?ok) ''c0''
               (map2 (\<lambda>a c. blob_entry (target_path a) c) (Files ?ok) [''hello'', ''hello''])]))),
       [] @ reads (Files ?ok) @
         [GitCreateTree (SourceOwner ?ok) (SourceRepo ?ok) ''c0''
            (map2 (\<lambda>a c. blob_entry (target_path a) c) (Files ?ok) [''hello'', ''hello''])])"
    by blast
  then have first: "getTree example_env ?ok (Some main_ref) [] =
     (Returned (Some example_tree, None),
      [ReadFile ''README.md'', ReadFile ''README.md'',
       GitCreateTree ''mercadolibre'' ''r1'' ''c0''
         [blob_entry ''README.md'' ''hello'', blob_entry ''docs/README.md'' ''hello'']])"
    by (simp add: reads_def paths example_env_def go_result_def example_job_def job_options_def)
  from inst2 index before failing
  have "getTree example_env ?bad (Some main_ref) [] =
      (Returned (None, Some (PathError ''open'' (local_path (Files ?bad ! 1))
         (ErrorString ''no such file or directory''))),
       [] @ reads (take (Suc 1) (Files ?bad)))"
    by blast
  then have second: "getTree example_env ?bad (Some main_ref) [] =
     (Returned (None,
        Some (PathError ''open'' ''missing.txt'' (ErrorString ''no such file or directory''))),
      [ReadFile ''README.md'', ReadFile ''missing.txt''])"
    by (simp add: reads_def paths)
  from first second show ?thesis by blast
qed

section \<open>The batch\<close>

lemma Expand_job_options:
  "Expand b (authorName b) (authorEmail b) = map (job_options b) (Destinations b)"
  by (simp add: Expand_def job_options_def)

lemma Expand_with_author:
  "Expand (options f) (GetName u) (GetEmail u) =
     map (job_options (options (with_author f u))) (Destinations (options f))"
  by (simp add: Expand_def job_options_def with_author_def)

text \<open>
  C1. After the user lookup, \<open>Do\<close> runs the jobs of the destinations one after the other
  in the order of the list. When all of them succeed, it returns no error and the URLs
  they returned, in order. When the jobs of the destinations \<open>pre\<close> succeed and the job
  of the next destination \<open>d\<close> fails, it returns that job's error with the URLs the jobs
  of \<open>pre\<close> returned, in order, and it leaves the log as the failing job left it: nothing
  is requested for the destinations \<open>post\<close> after \<open>d\<close>. A URL is a non-empty string: a
  job returns the empty string when it fails and when the service's answer carries no URL
  for the pull request, and \<open>Do\<close> collects the non-empty ones.
\<close>

theorem Do_stops_at_first_failure:
  assumes lookup: "user_reply env (s @ [UsersGet '''']) = Inr u"
  shows "(RunAll env (map (job_options (options (with_author f u))) (Destinations (options f)))
            (s @ [UsersGet '''']) = (Returned (us, None), s1) \<longrightarrow>
          Do env f s = (Returned (with_author f u, filter (\<lambda>url. url \<noteq> '''') us, None), s1))
       \<and> (Destinations (options f) = pre @ d # post \<and>
          RunAll env (map (job_options (options (with_author f u))) pre) (s @ [UsersGet '''']) =
            (Returned (us, None), s1) \<and>
          do env (job_options (options (with_author f u)) d) s1 = (Returned (url, Some e), s2) \<longrightarrow>
          Do env f s = (Returned (with_author f u, filter (\<lambda>url. url \<noteq> '''') us, Some e), s2))"
proof (intro conjI impI)
  assume "RunAll env (map (job_options (options (with_author f u))) (Destinations (options f)))
            (s @ [UsersGet '''']) = (Returned (us, None), s1)"
  then show "Do env f s = (Returned (with_author f u, filter (\<lambda>url. url \<noteq> '''') us, None), s1)"
    by (rule Do_RunAll_Returned [OF lookup])
next
  assume hyp: "Destinations (options f) = pre @ d # post \<and>
          RunAll env (map (job_options (options (with_author f u))) pre) (s @ [UsersGet '''']) =
            (Returned (us, None), s1) \<and>
          do env (job_options (options (with_author f u)) d) s1 = (Returned (url, Some e), s2)"
  let ?job = "job_options (options (with_author f u))"
  from hyp have "RunAll env (map ?job pre @ ?job d # map ?job post) (s @ [UsersGet '''']) =
      (Returned (us, Some e), s2)"
    by (simp add: RunAll_append_failure [where x = url])
  with hyp have "RunAll env (map ?job (Destinations (options f))) (s @ [UsersGet '''']) =
      (Returned (us, Some e), s2)"
    by simp
  then show "Do env f s = (Returned (with_author f u, filter (\<lambda>url. url \<noteq> '''') us, Some e), s2)"
    by (rule Do_RunAll_Returned [OF lookup])
qed

theorem Do_stops_at_first_failure_witness:
  "user_reply example_env ([] @ [UsersGet '''']) = Inr (Some example_user)
   \<and> Destinations (options \<lparr>options = example_spec\<rparr>) =
       [\<lparr>Repository = ''r1'', Base = ''main''\<rparr>] @ \<lparr>Repository = ''r2'', Base = ''main''\<rparr> #
       [\<lparr>Repository = ''r3'', Base = ''main''\<rparr>]
   \<and> fst (Do example_env \<lparr>options = example_spec\<rparr> []) =
       Returned (with_author \<lparr>options = example_spec\<rparr> (Some example_user),
         [''https://github.com/mercadolibre/r1/pull/1''],
         Some (WrapError ''unable to create the commit: ''
           (WrapError ''unable to commit: '' (ErrorString ''422 Unprocessable Entity''))))
   \<and> list_all (\<lambda>c. call_repo c \<noteq> Some ''r3'') (snd (Do example_env \<lparr>options = example_spec\<rparr> []))
   \<and> fst (Do example_env
        \<lparr>options = example_spec\<lparr>Destinations :=
           [\<lparr>Repository = ''r1'', Base = ''main''\<rparr>, \<lparr>Repository = ''r3'', Base = ''main''\<rparr>]\<rparr>\<rparr> []) =
       Returned (with_author
         \<lparr>options = example_spec\<lparr>Destinations :=
           [\<lparr>Repository = ''r1'', Base = ''main''\<rparr>, \<lparr>Repository = ''r3'', Base = ''main''\<rparr>]\<rparr>\<rparr>
         (Some example_user),
         [''https://github.com/mercadolibre/r1/pull/1'', ''https://github.com/mercadolibre/r3/pull/1''],
         None)"
proof -
  let ?f = "\<lparr>options = example_spec\<rparr>"
  let ?g = "\<lparr>options = example_spec\<lparr>Destinations :=
           [\<lparr>Repository = ''r1'', Base = ''main''\<rparr>, \<lparr>Repository = ''r3'', Base = ''main''\<rparr>]\<rparr>\<rparr>"
  let ?d1 = "\<lparr>Repository = ''r1'', Base = ''main''\<rparr>"
  let ?d2 = "\<lparr>Repository = ''r2'', Base = ''main''\<rparr>"
  let ?d3 = "\<lparr>Repository = ''r3'', Base = ''main''\<rparr>"
  let ?job = "job_options (options (with_author ?f (Some example_user)))"
  let ?s1 = "snd (RunAll example_env (map ?job [?d1]) ([] @ [UsersGet '''']))"
  let ?s2 = "snd (do example_env (?job ?d2) ?s1)"
  let ?err = "WrapError ''unable to create the commit: ''
           (WrapError ''unable to commit: '' (ErrorString ''422 Unprocessable Entity''))"
  have lookup: "user_reply example_env ([] @ [UsersGet '''']) = Inr (Some example_user)"
    by (simp add: example_env_def)
  have dests: "Destinations (options ?f) = [?d1] @ ?d2 # [?d3]"
    by (simp add: example_spec_def)
  have prior: "RunAll example_env (map ?job [?d1]) ([] @ [UsersGet '''']) =
      (Returned ([''https://github.com/mercadolibre/r1/pull/1''], None), ?s1)"
    by (simp add: run_defs with_author_def)
  have failing: "do example_env (?job ?d2) ?s1 = (Returned ('''', Some ?err), ?s2)"
    by (simp add: run_defs with_author_def)
  let ?s3 = "snd (RunAll example_env
      (map (job_options (options (with_author ?g (Some example_user)))) (Destinations (options ?g)))
      ([] @ [UsersGet '''']))"
  have all: "RunAll example_env
      (map (job_options (options (with_author ?g (Some example_user)))) (Destinations (options ?g)))
      ([] @ [UsersGet '''']) =
      (Returned ([''https://github.com/mercadolibre/r1/pull/1'',
                  ''https://github.com/mercadolibre/r3/pull/1''], None), ?s3)"
    by (simp add: run_defs with_author_def)
  from Do_stops_at_first_failure [OF lookup, of ?f _ _ "[?d1]" ?d2 "[?d3]" "''''" ?err ?s2]
    dests prior failing
  have "Do example_env ?f [] =
      (Returned (with_author ?f (Some example_user),
         filter (\<lambda>url. url \<noteq> '''') [''https://github.com/mercadolibre/r1/pull/1''], Some ?err), ?s2)"
    by blast
  then have partial: "fst (Do example_env ?f []) =
      Returned (with_author ?f (Some example_user),
         [''https://github.com/mercadolibre/r1/pull/1''], Some ?err)"
    by simp
  from Do_stops_at_first_failure [OF lookup, of ?g] all
  have "Do example_env ?g [] =
      (Returned (with_author ?g (Some example_user),
         filter (\<lambda>url. url \<noteq> '''')
           [''https://github.com/mercadolibre/r1/pull/1'',
            ''https://github.com/mercadolibre/r3/pull/1''], None), ?s3)"
    by blast
  then have whole: "fst (Do example_env ?g []) =
      Returned (with_author ?g (Some example_user),
         [''https://github.com/mercadolibre/r1/pull/1'', ''https://github.com/mercadolibre/r3/pull/1''],
         None)"
    by simp
  have untouched: "list_all (\<lambda>c. call_repo c \<noteq> Some ''r3'') (snd (Do example_env ?f []))"
    by (simp add: run_defs)
  from lookup dests partial untouched whole show ?thesis
    by blast
qed

text \<open>
  C6. The first request of \<open>Do\<close> is the lookup of the authenticated user, and no later
  request of the run is a user lookup. The author of the run is the one the lookup
  answers: when the answer carries a name and an e-mail, these are what \<open>Do\<close> stores in
  the command, what every job carries, and what every commit created in the run is
  signed with (a part the answer lacks is the empty string). \<open>Range\<close> hands its callback
  the options of the destinations one by one in the order of the list: a callback that
  only records what it is given ends with exactly the list \<open>Expand\<close> of the
  specification. With the author that was looked up, \<open>Do\<close> is the run of that list of
  jobs. The list has one job per destination; the job at a position has the repository
  and the base branch of the destination at that position, the name and the e-mail of
  the author, and the files, the commit message, the subject, the body and the head
  branch of the batch. (The fields are values here. In the program the file list of a
  job is the slice of the batch, with the same elements and no second array; nothing in
  the program writes an element, so a job's files are the batch's files throughout.)
\<close>

theorem lookup_once_and_one_job_per_destination:
  "(\<exists>rest. snd (Do env f s) = s @ UsersGet '''' # rest \<and> list_all (\<lambda>c. \<not> is_UsersGet c) rest)
   \<and> Range_Destinations b (\<lambda>option seen. (Returned None, seen @ [option])) [] =
       (Returned None, Expand b (authorName b) (authorEmail b))
   \<and> (user_reply env (s @ [UsersGet '''']) = Inr u \<and>
      RunAll env (Expand (options f) (GetName u) (GetEmail u)) (s @ [UsersGet '''']) =
        (Returned (us, err), s') \<longrightarrow>
      Do env f s = (Returned (with_author f u, filter (\<lambda>url. url \<noteq> '''') us, err), s'))
   \<and> length (Expand b name email) = length (Destinations b)
   \<and> (\<forall>i < length (Destinations b).
        SourceRepo (Expand b name email ! i) = Repository (Destinations b ! i) \<and>
        PullRequestRepo (Expand b name email ! i) = Repository (Destinations b ! i) \<and>
        BaseBranch (Expand b name email ! i) = Base (Destinations b ! i) \<and>
        PullRequestBranch (Expand b name email ! i) = Base (Destinations b ! i) \<and>
        AuthorName (Expand b name email ! i) = name \<and>
        AuthorEmail (Expand b name email ! i) = email \<and>
        Files (Expand b name email ! i) = BatchPullRequestOption.Files b \<and>
        CommitMessage (Expand b name email ! i) = BatchPullRequestOption.CommitMessage b \<and>
        PullRequestSubject (Expand b name email ! i) = Subject b \<and>
        PullRequestBody (Expand b name email ! i) = Body b \<and>
        CommitBranch (Expand b name email ! i) = Head b)
   \<and> (user_reply env (s @ [UsersGet '''']) = Inr (Some usr) \<and>
      User_Name usr = Some uname \<and> User_Email usr = Some umail \<and>
      RunAll env (Expand (options f) uname umail) (s @ [UsersGet '''']) =
        (Returned (us, err), s') \<longrightarrow>
      Do env f s =
        (Returned (f\<lparr>options := (options f)\<lparr>authorName := uname, authorEmail := umail\<rparr>\<rparr>,
           filter (\<lambda>url. url \<noteq> '''') us, err), s'))
   \<and> (user_reply env (s @ [UsersGet '''']) = Inr (Some usr) \<and>
      User_Name usr = Some uname \<and> User_Email usr = Some umail \<longrightarrow>
      (\<exists>rest. snd (Do env f s) = s @ UsersGet '''' # rest \<and> list_all (authored uname umail) rest))
   \<and> (user_reply env (s @ [UsersGet '''']) = Inr u \<longrightarrow>
      (\<exists>rest. snd (Do env f s) = s @ UsersGet '''' # rest \<and>
         list_all (authored (GetName u) (GetEmail u)) rest))
   \<and> GetName (Some \<lparr>User_Name = Some uname, User_Email = mail\<rparr>) = uname
   \<and> GetEmail (Some \<lparr>User_Name = nm, User_Email = Some umail\<rparr>) = umail
   \<and> GetName (Some \<lparr>User_Name = None, User_Email = mail\<rparr>) = ''''
   \<and> GetEmail (Some \<lparr>User_Name = nm, User_Email = None\<rparr>) = ''''
   \<and> GetName None = '''' \<and> GetEmail None = ''''"
proof -
  obtain rest where rest: "snd (Do env f s) = s @ UsersGet '''' # rest" "list_all batch_call rest"
    using Do_log [of env f s] by blast
  from rest(2) have "list_all (\<lambda>c. \<not> is_UsersGet c) rest"
    by (simp add: list_all_iff batch_call_def)
  with rest(1) have once: "\<exists>rest. snd (Do env f s) = s @ UsersGet '''' # rest \<and>
      list_all (\<lambda>c. \<not> is_UsersGet c) rest"
    by blast
  have handed: "Range_Destinations b (\<lambda>option seen. (Returned None, seen @ [option])) [] =
       (Returned None, Expand b (authorName b) (authorEmail b))"
    by (simp add: Range_Destinations_def Range_records Expand_job_options)
  have run: "Do env f s = (Returned (with_author f u, filter (\<lambda>url. url \<noteq> '''') us, err), s')"
    if "user_reply env (s @ [UsersGet '''']) = Inr u \<and>
      RunAll env (Expand (options f) (GetName u) (GetEmail u)) (s @ [UsersGet '''']) =
        (Returned (us, err), s')"
    using that Do_RunAll_Returned [of env s u f us err s'] by (simp add: Expand_with_author)
  have len: "length (Expand b name email) = length (Destinations b)"
    by (simp add: Expand_def)
  have fields: "\<forall>i < length (Destinations b).
        SourceRepo (Expand b name email ! i) = Repository (Destinations b ! i) \<and>
        PullRequestRepo (Expand b name email ! i) = Repository (Destinations b ! i) \<and>
        BaseBranch (Expand b name email ! i) = Base (Destinations b ! i) \<and>
        PullRequestBranch (Expand b name email ! i) = Base (Destinations b ! i) \<and>
        AuthorName (Expand b name email ! i) = name \<and>
        AuthorEmail (Expand b name email ! i) = email \<and>
        Files (Expand b name email ! i) = BatchPullRequestOption.Files b \<and>
        CommitMessage (Expand b name email ! i) = BatchPullRequestOption.CommitMessage b \<and>
        PullRequestSubject (Expand b name email ! i) = Subject b \<and>
        PullRequestBody (Expand b name email ! i) = Body b \<and>
        CommitBranch (Expand b name email ! i) = Head b"
    by (simp add: Expand_def)
  have getters: "GetName (Some usr) = uname" "GetEmail (Some usr) = umail"
    if "User_Name usr = Some uname" "User_Email usr = Some umail"
    using that by (simp_all add: GetName_def GetEmail_def)
  have stored: "Do env f s =
        (Returned (f\<lparr>options := (options f)\<lparr>authorName := uname, authorEmail := umail\<rparr>\<rparr>,
           filter (\<lambda>url. url \<noteq> '''') us, err), s')"
    if "user_reply env (s @ [UsersGet '''']) = Inr (Some usr) \<and>
      User_Name usr = Some uname \<and> User_Email usr = Some umail \<and>
      RunAll env (Expand (options f) uname umail) (s @ [UsersGet '''']) =
        (Returned (us, err), s')"
    using that getters Do_RunAll_Returned [of env s "Some usr" f us err s']
      Expand_with_author [of f "Some usr"]
    by (simp add: with_author_def)
  have signed: "\<exists>rest. snd (Do env f s) = s @ UsersGet '''' # rest \<and>
      list_all (authored (GetName u) (GetEmail u)) rest"
    if "user_reply env (s @ [UsersGet '''']) = Inr u"
    using that by (rule Do_authored_log)
  have signed_by: "\<exists>rest. snd (Do env f s) = s @ UsersGet '''' # rest \<and>
      list_all (authored uname umail) rest"
    if "user_reply env (s @ [UsersGet '''']) = Inr (Some usr) \<and>
      User_Name usr = Some uname \<and> User_Email usr = Some umail"
    using that getters Do_authored_log [of env s "Some usr" f] by simp
  have zero: "GetName (Some \<lparr>User_Name = Some uname, User_Email = mail\<rparr>) = uname"
    "GetEmail (Some \<lparr>User_Name = nm, User_Email = Some umail\<rparr>) = umail"
    "GetName (Some \<lparr>User_Name = None, User_Email = mail\<rparr>) = ''''"
    "GetEmail (Some \<lparr>User_Name = nm, User_Email = None\<rparr>) = ''''"
    "GetName None = ''''" "GetEmail None = ''''"
    by (simp_all add: GetName_def GetEmail_def)
  from once handed run len fields stored signed signed_by zero show ?thesis
    by blast
qed

theorem lookup_once_and_one_job_per_destination_witness:
  "user_reply example_env ([] @ [UsersGet '''']) =
     Inr (Some \<lparr>User_Name = Some ''bot'', User_Email = Some ''bot@example.com''\<rparr>)
   \<and> map is_UsersGet (snd (Do example_env \<lparr>options = example_spec\<rparr> [])) =
       True # replicate 18 False
   \<and> fst (Do example_env \<lparr>options = example_spec\<rparr> []) =
       Returned (\<lparr>options = example_spec\<lparr>authorName := ''bot'', authorEmail := ''bot@example.com''\<rparr>\<rparr>,
         [''https://github.com/mercadolibre/r1/pull/1''],
         Some (WrapError ''unable to create the commit: ''
           (WrapError ''unable to commit: '' (ErrorString ''422 Unprocessable Entity''))))
   \<and> list_all (authored ''bot'' ''bot@example.com'') (tl (snd (Do example_env \<lparr>options = example_spec\<rparr> [])))
   \<and> snd (Do example_env \<lparr>options = example_spec\<rparr> []) ! 8 =
       GitCreateCommit ''mercadolibre'' ''r1''
         (Commit None
            (Some \<lparr>CommitAuthor_Date = Some 8, CommitAuthor_Name = Some ''bot'',
                   CommitAuthor_Email = Some ''bot@example.com''\<rparr>)
            None (Some ''Automatic Large Scale Change'') (Some example_tree)
            [Commit (Some ''c0'') None None None None []])
   \<and> length (Expand example_spec ''bot'' ''bot@example.com'') = 3
   \<and> SourceRepo (Expand example_spec ''bot'' ''bot@example.com'' ! 1) = ''r2''
   \<and> BaseBranch (Expand example_spec ''bot'' ''bot@example.com'' ! 1) = ''main''
   \<and> AuthorName (Expand example_spec ''bot'' ''bot@example.com'' ! 1) = ''bot''
   \<and> AuthorEmail (Expand example_spec ''bot'' ''bot@example.com'' ! 1) = ''bot@example.com''
   \<and> Files (Expand example_spec ''bot'' ''bot@example.com'' ! 1) = [''README.md'']"
proof -
  let ?f = "\<lparr>options = example_spec\<rparr>"
  let ?usr = "\<lparr>User_Name = Some ''bot'', User_Email = Some ''bot@example.com''\<rparr>"
  let ?jobs = "Expand (options ?f) ''bot'' ''bot@example.com''"
  let ?err = "WrapError ''unable to create the commit: ''
           (WrapError ''unable to commit: '' (ErrorString ''422 Unprocessable Entity''))"
  let ?s' = "snd (RunAll example_env ?jobs ([] @ [UsersGet '''']))"
  note inst = lookup_once_and_one_job_per_destination [of example_env ?f "[]" example_spec
      "Some ?usr" "[''https://github.com/mercadolibre/r1/pull/1'']" "Some ?err" ?s'
      "''bot''" "''bot@example.com''" ?usr "''bot''" "''bot@example.com''"]
  have lookup: "user_reply example_env ([] @ [UsersGet '''']) = Inr (Some ?usr)"
    by (simp add: example_env_def example_user_def)
  have parts: "User_Name ?usr = Some ''bot''" "User_Email ?usr = Some ''bot@example.com''"
    by simp_all
  have jobs: "RunAll example_env ?jobs ([] @ [UsersGet '''']) =
      (Returned ([''https://github.com/mercadolibre/r1/pull/1''], Some ?err), ?s')"
    by (simp add: run_defs Expand_def)
  from inst lookup parts jobs
  have "Do example_env ?f [] =
      (Returned (?f\<lparr>options := (options ?f)\<lparr>authorName := ''bot'', authorEmail := ''bot@example.com''\<rparr>\<rparr>,
         filter (\<lambda>url. url \<noteq> '''') [''https://github.com/mercadolibre/r1/pull/1''], Some ?err), ?s')"
    by blast
  then have result: "fst (Do example_env ?f []) =
      Returned (\<lparr>options = example_spec\<lparr>authorName := ''bot'', authorEmail := ''bot@example.com''\<rparr>\<rparr>,
         [''https://github.com/mercadolibre/r1/pull/1''], Some ?err)"
    by simp
  from inst lookup parts
  obtain rest where rest: "snd (Do example_env ?f []) = [] @ UsersGet '''' # rest"
      "list_all (authored ''bot'' ''bot@example.com'') rest"
    by blast
  then have signed: "list_all (authored ''bot'' ''bot@example.com'') (tl (snd (Do example_env ?f [])))"
    by simp
  have commit: "snd (Do example_env ?f []) ! 8 =
       GitCreateCommit ''mercadolibre'' ''r1''
         (Commit None
            (Some \<lparr>CommitAuthor_Date = Some 8, CommitAuthor_Name = Some ''bot'',
                   CommitAuthor_Email = Some ''bot@example.com''\<rparr>)
            None (Some ''Automatic Large Scale Change'') (Some example_tree)
            [Commit (Some ''c0'') None None None None []])"
    by (simp add: run_defs numeral_eq_Suc)
  have log: "map is_UsersGet (snd (Do example_env ?f [])) = True # replicate 18 False"
    by (simp add: run_defs numeral_eq_Suc)
  have size: "length (Destinations example_spec) = 3" "(1::nat) < 3"
    by (simp_all add: example_spec_def)
  from inst size have fields:
    "length (Expand example_spec ''bot'' ''bot@example.com'') = 3"
    "SourceRepo (Expand example_spec ''bot'' ''bot@example.com'' ! 1) =
       Repository (Destinations example_spec ! 1)"
    "BaseBranch (Expand example_spec ''bot'' ''bot@example.com'' ! 1) =
       Base (Destinations example_spec ! 1)"
    "AuthorName (Expand example_spec ''bot'' ''bot@example.com'' ! 1) = ''bot''"
    "AuthorEmail (Expand example_spec ''bot'' ''bot@example.com'' ! 1) = ''bot@example.com''"
    "Files (Expand example_spec ''bot'' ''bot@example.com'' ! 1) =
       BatchPullRequestOption.Files example_spec"
    by simp_all
  from lookup log result signed commit fields show ?thesis
    by (simp add: example_spec_def)
qed

text \<open>
  C9. A command built from a description that passed validation holds that description,
  and when \<open>Do\<close> returns, the command's commit message, subject, body, head branch, file
  list and destination list are what they were: \<open>Do\<close> stores the author's name and
  e-mail in the command and changes nothing else, so the description is still valid.
\<close>

theorem Do_leaves_description_unchanged:
  assumes built: "NewBatchPullRequestCommand b = (Some f, None)"
    and run: "Do env f s = (Returned (f', urls, err), s')"
  shows "BatchPullRequestOption.CommitMessage (options f') = BatchPullRequestOption.CommitMessage b
    \<and> Subject (options f') = Subject b
    \<and> Body (options f') = Body b
    \<and> Head (options f') = Head b
    \<and> BatchPullRequestOption.Files (options f') = BatchPullRequestOption.Files b
    \<and> Destinations (options f') = Destinations b
    \<and> validate (options f') = None"
proof -
  from built have b: "options f = b" and valid: "validate b = None"
    by (auto simp: NewBatchPullRequestCommand_def split: option.splits)
  from Do_frame [OF run] b have same:
    "BatchPullRequestOption.CommitMessage (options f') = BatchPullRequestOption.CommitMessage b"
    "Subject (options f') = Subject b" "Body (options f') = Body b" "Head (options f') = Head b"
    "BatchPullRequestOption.Files (options f') = BatchPullRequestOption.Files b"
    "Destinations (options f') = Destinations b"
    by (auto simp: with_author_def)
  from valid same have "validate (options f') = None"
    by (auto simp: validate_def split: if_splits)
  with same show ?thesis by simp
qed

theorem Do_leaves_description_unchanged_witness:
  "NewBatchPullRequestCommand example_spec = (Some \<lparr>options = example_spec\<rparr>, None)
   \<and> fst (Do example_env \<lparr>options = example_spec\<rparr> []) =
       Returned (\<lparr>options = example_spec\<lparr>authorName := ''bot'', authorEmail := ''bot@example.com''\<rparr>\<rparr>,
         [''https://github.com/mercadolibre/r1/pull/1''],
         Some (WrapError ''unable to create the commit: ''
           (WrapError ''unable to commit: '' (ErrorString ''422 Unprocessable Entity''))))
   \<and> Destinations (example_spec\<lparr>authorName := ''bot'', authorEmail := ''bot@example.com''\<rparr>) =
       Destinations example_spec
   \<and> BatchPullRequestOption.Files
       (example_spec\<lparr>authorName := ''bot'', authorEmail := ''bot@example.com''\<rparr>) =
       BatchPullRequestOption.Files example_spec
   \<and> validate (example_spec\<lparr>authorName := ''bot'', authorEmail := ''bot@example.com''\<rparr>) = None"
proof -
  let ?f = "\<lparr>options = example_spec\<rparr>"
  let ?f' = "\<lparr>options = example_spec\<lparr>authorName := ''bot'', authorEmail := ''bot@example.com''\<rparr>\<rparr>"
  let ?err = "WrapError ''unable to create the commit: ''
           (WrapError ''unable to commit: '' (ErrorString ''422 Unprocessable Entity''))"
  have built: "NewBatchPullRequestCommand example_spec = (Some ?f, None)"
    by (simp add: NewBatchPullRequestCommand_def validate_def example_spec_def)
  have result: "fst (Do example_env ?f []) =
      Returned (?f', [''https://github.com/mercadolibre/r1/pull/1''], Some ?err)"
    by (simp add: run_defs)
  then have run: "Do example_env ?f [] =
      (Returned (?f', [''https://github.com/mercadolibre/r1/pull/1''], Some ?err),
       snd (Do example_env ?f []))"
    by (simp add: prod_eq_iff)
  from Do_leaves_description_unchanged [OF built run] built result show ?thesis
    by simp
qed

text \<open>
  C10. Every request of a batch that names an owner names \<open>mercadolibre\<close>: the lookups
  and the creation of references, the tree, the commit read and created, the update of
  the reference and the pull request. It is so for every description and every
  environment, because the options of a job take both owners from no input; of a
  destination they take the repository and the base branch only.
\<close>

theorem every_request_is_for_the_fixed_owner:
  "(\<exists>new. snd (Do env f s) = s @ new \<and>
      list_all (\<lambda>c. call_owner c = None \<or> call_owner c = Some ''mercadolibre'') new)
   \<and> (\<exists>new. snd (do env (job_options b v) s) = s @ new \<and>
      list_all (\<lambda>c. call_owner c = None \<or> call_owner c = Some ''mercadolibre'') new)
   \<and> SourceOwner (job_options b v) = ''mercadolibre''
   \<and> PullRequestOwner (job_options b v) = ''mercadolibre''
   \<and> SourceRepo (job_options b v) = Repository v
   \<and> PullRequestRepo (job_options b v) = Repository v
   \<and> BaseBranch (job_options b v) = Base v
   \<and> PullRequestBranch (job_options b v) = Base v"
proof -
  obtain rest where rest: "snd (Do env f s) = s @ UsersGet '''' # rest" "list_all batch_call rest"
    using Do_log [of env f s] by blast
  from rest(2)
  have "list_all (\<lambda>c. call_owner c = None \<or> call_owner c = Some ''mercadolibre'') (UsersGet '''' # rest)"
    by (simp add: list_all_iff batch_call_def)
  with rest(1) have batch: "\<exists>new. snd (Do env f s) = s @ new \<and>
      list_all (\<lambda>c. call_owner c = None \<or> call_owner c = Some ''mercadolibre'') new"
    by blast
  have "emits (\<lambda>c. call_owner c = None \<or> call_owner c = Some ''mercadolibre'')
      (do env (job_options b v))"
  proof (rule emits_mono [OF emits_do])
    fix c assume "job_call (job_options b v) c"
    then have "batch_call c" by (rule job_call_batch_call)
    then show "call_owner c = None \<or> call_owner c = Some ''mercadolibre''"
      by (simp add: batch_call_def)
  qed
  then have job: "\<exists>new. snd (do env (job_options b v) s) = s @ new \<and>
      list_all (\<lambda>c. call_owner c = None \<or> call_owner c = Some ''mercadolibre'') new"
    unfolding emits_def by blast
  from batch job show ?thesis
    by (simp add: job_options_def)
qed

theorem every_request_is_for_the_fixed_owner_witness:
  "map call_owner (snd (do example_env example_job [])) =
     [Some ''mercadolibre'', Some ''mercadolibre'', Some ''mercadolibre'', None,
      Some ''mercadolibre'', Some ''mercadolibre'', None, Some ''mercadolibre'',
      Some ''mercadolibre'', Some ''mercadolibre'']
   \<and> list_all (\<lambda>c. call_owner c = None \<or> call_owner c = Some ''mercadolibre'')
       (snd (Do example_env \<lparr>options = example_spec\<rparr> []))"
proof -
  from every_request_is_for_the_fixed_owner [of example_env "\<lparr>options = example_spec\<rparr>" "[]"]
  have "list_all (\<lambda>c. call_owner c = None \<or> call_owner c = Some ''mercadolibre'')
       (snd (Do example_env \<lparr>options = example_spec\<rparr> []))"
    by auto
  moreover have "map call_owner (snd (do example_env example_job [])) =
     [Some ''mercadolibre'', Some ''mercadolibre'', Some ''mercadolibre'', None,
      Some ''mercadolibre'', Some ''mercadolibre'', None, Some ''mercadolibre'',
      Some ''mercadolibre'', Some ''mercadolibre'']"
    by (simp add: run_defs)
  ultimately show ?thesis by blast
qed

end
